theory Spec2Isabelle
  imports Complex_Main "HOL-Library.Word"
begin

section \<open>The C type \<open>float\<close>: IEEE 754 binary32, round to nearest even\<close>

text \<open>
  Every scalar of \<open>stereokit.h\<close> is a C \<open>float\<close>. A value is a NaN, a signed infinity,
  or a sign together with a non-negative magnitude; the magnitude is kept as the exact
  rational it denotes, so a zero carries its sign (\<open>Fin True 0\<close> is \<open>-0.0f\<close>).
  The sign is \<open>True\<close> for negative values. Every operator rounds its exact result once,
  to the nearest value and to the even one on a tie: expressions are evaluated in
  \<open>float\<close>, without excess precision and without fusing a product into a sum.
\<close>

datatype float32 = NaN | Inf bool | Fin bool rat

definition pow2 :: "int \<Rightarrow> rat" where
  "pow2 e = (if 0 \<le> e then of_int (2 ^ nat e) else 1 / of_int (2 ^ nat (- e)))"

text \<open>
  The binade of a positive magnitude, clamped to the exponent range of binary32:
  the largest \<open>e\<close> in \<open>-126 .. 127\<close> with \<open>2^e \<le> q\<close>, and \<open>-126\<close> for the subnormals.
  It is found by bisection, one bit of the offset from \<open>-126\<close> at a time.
\<close>

definition expo :: "rat \<Rightarrow> int" where
  "expo q = min 127 (foldl (\<lambda>lo k. if pow2 (lo + k) \<le> q then lo + k else lo) (- 126)
                      [128, 64, 32, 16, 8, 4, 2, 1])"

text \<open>The spacing of binary32 values around \<open>q\<close>: 24 significant bits.\<close>

definition ulp :: "rat \<Rightarrow> rat" where
  "ulp q = pow2 (expo q - 23)"

text \<open>Rounding a non-negative rational to the nearest integer, ties to even.\<close>

definition rne :: "rat \<Rightarrow> int" where
  "rne n = (let f = \<lfloor>n\<rfloor>; d = n - of_int f
            in if d < 1 / 2 then f
               else if 1 / 2 < d then f + 1
               else if even f then f else f + 1)"

definition round_mag :: "rat \<Rightarrow> rat" where
  "round_mag q = of_int (rne (q / ulp q)) * ulp q"

text \<open>
  Rounding an exact result \<open>r\<close> to binary32. An exact zero takes the sign \<open>zs\<close> the
  operation prescribes; a result that rounds to \<open>2^128\<close> or more overflows to infinity;
  a result that rounds to zero keeps its own sign.
\<close>

definition round_to :: "bool \<Rightarrow> rat \<Rightarrow> float32" where
  "round_to zs r =
     (if r = 0 then Fin zs 0
      else (let m = round_mag \<bar>r\<bar>
            in if pow2 128 \<le> m then Inf (r < 0) else Fin (r < 0) m))"

definition sval :: "bool \<Rightarrow> rat \<Rightarrow> rat" where
  "sval s q = (if s then - q else q)"

text \<open>A well-formed finite value lies on the binary32 grid and below \<open>2^128\<close>.\<close>

fun is_float32 :: "float32 \<Rightarrow> bool" where
  "is_float32 NaN = True"
| "is_float32 (Inf s) = True"
| "is_float32 (Fin s q) = (0 \<le> q \<and> q < pow2 128 \<and> of_int \<lfloor>q / ulp q\<rfloor> = q / ulp q)"

fun is_finite :: "float32 \<Rightarrow> bool" where
  "is_finite (Fin s q) = True"
| "is_finite _ = False"

fun is_nan :: "float32 \<Rightarrow> bool" where
  "is_nan NaN = True"
| "is_nan _ = False"

fun is_inf :: "float32 \<Rightarrow> bool" where
  "is_inf (Inf s) = True"
| "is_inf _ = False"

fun is_zero :: "float32 \<Rightarrow> bool" where
  "is_zero (Fin s q) = (q = 0)"
| "is_zero _ = False"

subsection \<open>The arithmetic operators of C on \<open>float\<close>\<close>

fun fneg :: "float32 \<Rightarrow> float32" where
  "fneg NaN = NaN"
| "fneg (Inf s) = Inf (\<not> s)"
| "fneg (Fin s q) = Fin (\<not> s) q"

fun fadd :: "float32 \<Rightarrow> float32 \<Rightarrow> float32" where
  "fadd NaN y = NaN"
| "fadd x NaN = NaN"
| "fadd (Inf s) (Inf t) = (if s = t then Inf s else NaN)"
| "fadd (Inf s) (Fin t q) = Inf s"
| "fadd (Fin s p) (Inf t) = Inf t"
| "fadd (Fin s p) (Fin t q) = round_to (s \<and> t) (sval s p + sval t q)"

definition fsub :: "float32 \<Rightarrow> float32 \<Rightarrow> float32" where
  "fsub x y = fadd x (fneg y)"

fun fmul :: "float32 \<Rightarrow> float32 \<Rightarrow> float32" where
  "fmul NaN y = NaN"
| "fmul x NaN = NaN"
| "fmul (Inf s) (Inf t) = Inf (s \<noteq> t)"
| "fmul (Inf s) (Fin t q) = (if q = 0 then NaN else Inf (s \<noteq> t))"
| "fmul (Fin s p) (Inf t) = (if p = 0 then NaN else Inf (s \<noteq> t))"
| "fmul (Fin s p) (Fin t q) = round_to (s \<noteq> t) (sval s p * sval t q)"

fun fdiv :: "float32 \<Rightarrow> float32 \<Rightarrow> float32" where
  "fdiv NaN y = NaN"
| "fdiv x NaN = NaN"
| "fdiv (Inf s) (Inf t) = NaN"
| "fdiv (Inf s) (Fin t q) = Inf (s \<noteq> t)"
| "fdiv (Fin s p) (Inf t) = Fin (s \<noteq> t) 0"
| "fdiv (Fin s p) (Fin t q) =
     (if q = 0 then (if p = 0 then NaN else Inf (s \<noteq> t))
      else round_to (s \<noteq> t) (sval s p / sval t q))"

text \<open>The comparison \<open>==\<close> of C: a NaN equals nothing, and the two zeros are equal.\<close>

fun feq :: "float32 \<Rightarrow> float32 \<Rightarrow> bool" where
  "feq (Fin s p) (Fin t q) = (sval s p = sval t q)"
| "feq (Inf s) (Inf t) = (s = t)"
| "feq _ _ = False"





text \<open>A value that is not negative: \<open>+0\<close>, a positive number or \<open>+\<infinity>\<close>.\<close>

fun is_nonneg :: "float32 \<Rightarrow> bool" where
  "is_nonneg NaN = False"
| "is_nonneg (Inf s) = (\<not> s)"
| "is_nonneg (Fin s q) = (\<not> s \<and> 0 \<le> q)"

text \<open>The conversion of an integer literal, as in \<open>vec3{ 0,0,-1 }\<close>.\<close>

definition float_of_int :: "int \<Rightarrow> float32" where
  "float_of_int i = round_to False (of_int i)"

subsection \<open>\<open>sqrtf\<close>: the correctly rounded square root\<close>

text \<open>The integer square root by bisection on the bits of the result, 24 bits wide.\<close>

fun isqrt_bits :: "nat \<Rightarrow> int \<Rightarrow> int \<Rightarrow> int" where
  "isqrt_bits 0 r n = r"
| "isqrt_bits (Suc b) r n =
     (let c = r + 2 ^ b in isqrt_bits b (if c * c \<le> n then c else r) n)"

text \<open>
  The binade of the root of a binary32 magnitude: the largest \<open>e\<close> from \<open>-75\<close> on with
  \<open>2^(2e) \<le> q\<close>, again by bisection. The root is then rounded to 24 bits, ties to even.
\<close>

definition sqrt_expo :: "rat \<Rightarrow> int" where
  "sqrt_expo q = foldl (\<lambda>lo k. if pow2 (2 * (lo + k)) \<le> q then lo + k else lo) (- 75)
                   [128, 64, 32, 16, 8, 4, 2, 1]"

definition sqrt_mag :: "rat \<Rightarrow> rat" where
  "sqrt_mag q =
     (let u = pow2 (sqrt_expo q - 23);
          n = q / (u * u);
          k = isqrt_bits 24 0 \<lfloor>n\<rfloor>;
          h = (of_int k + 1 / 2) * (of_int k + 1 / 2)
      in of_int (if n < h then k else if h < n then k + 1
                 else if even k then k else k + 1) * u)"

fun fsqrt :: "float32 \<Rightarrow> float32" where
  "fsqrt NaN = NaN"
| "fsqrt (Inf s) = (if s then NaN else Inf False)"
| "fsqrt (Fin s q) =
     (if q = 0 then Fin s 0 else if s then NaN else Fin False (sqrt_mag q))"

section \<open>The value types of \<open>stereokit.h\<close>\<close>

record vec2 =
  v2x :: float32
  v2y :: float32

record vec3 =
  v3x :: float32
  v3y :: float32
  v3z :: float32

record vec4 =
  v4x :: float32
  v4y :: float32
  v4z :: float32
  v4w :: float32

record quat =
  q_i :: float32
  q_j :: float32
  q_k :: float32
  q_a :: float32

text \<open>\<open>struct matrix { vec4 row[4]; }\<close>: the four rows in order.\<close>

record matrix =
  row0 :: vec4
  row1 :: vec4
  row2 :: vec4
  row3 :: vec4

subsection \<open>The operators on \<open>vec2\<close> (lines 87 to 92 of the header)\<close>

definition vec2_mul_s :: "vec2 \<Rightarrow> float32 \<Rightarrow> vec2" where
  "vec2_mul_s a b = \<lparr>v2x = fmul (v2x a) b, v2y = fmul (v2y a) b\<rparr>"

definition vec2_div_s :: "vec2 \<Rightarrow> float32 \<Rightarrow> vec2" where
  "vec2_div_s a b = \<lparr>v2x = fdiv (v2x a) b, v2y = fdiv (v2y a) b\<rparr>"

definition vec2_add :: "vec2 \<Rightarrow> vec2 \<Rightarrow> vec2" where
  "vec2_add a b = \<lparr>v2x = fadd (v2x a) (v2x b), v2y = fadd (v2y a) (v2y b)\<rparr>"

definition vec2_sub :: "vec2 \<Rightarrow> vec2 \<Rightarrow> vec2" where
  "vec2_sub a b = \<lparr>v2x = fsub (v2x a) (v2x b), v2y = fsub (v2y a) (v2y b)\<rparr>"

definition vec2_mul :: "vec2 \<Rightarrow> vec2 \<Rightarrow> vec2" where
  "vec2_mul a b = \<lparr>v2x = fmul (v2x a) (v2x b), v2y = fmul (v2y a) (v2y b)\<rparr>"

definition vec2_div :: "vec2 \<Rightarrow> vec2 \<Rightarrow> vec2" where
  "vec2_div a b = \<lparr>v2x = fdiv (v2x a) (v2x b), v2y = fdiv (v2y a) (v2y b)\<rparr>"

subsection \<open>The operators on \<open>vec3\<close> (lines 98 to 104 of the header)\<close>

definition vec3_mul_s :: "vec3 \<Rightarrow> float32 \<Rightarrow> vec3" where
  "vec3_mul_s a b = \<lparr>v3x = fmul (v3x a) b, v3y = fmul (v3y a) b, v3z = fmul (v3z a) b\<rparr>"

definition vec3_div_s :: "vec3 \<Rightarrow> float32 \<Rightarrow> vec3" where
  "vec3_div_s a b = \<lparr>v3x = fdiv (v3x a) b, v3y = fdiv (v3y a) b, v3z = fdiv (v3z a) b\<rparr>"

definition vec3_add :: "vec3 \<Rightarrow> vec3 \<Rightarrow> vec3" where
  "vec3_add a b =
     \<lparr>v3x = fadd (v3x a) (v3x b), v3y = fadd (v3y a) (v3y b), v3z = fadd (v3z a) (v3z b)\<rparr>"

definition vec3_sub :: "vec3 \<Rightarrow> vec3 \<Rightarrow> vec3" where
  "vec3_sub a b =
     \<lparr>v3x = fsub (v3x a) (v3x b), v3y = fsub (v3y a) (v3y b), v3z = fsub (v3z a) (v3z b)\<rparr>"

definition vec3_neg :: "vec3 \<Rightarrow> vec3" where
  "vec3_neg a = \<lparr>v3x = fneg (v3x a), v3y = fneg (v3y a), v3z = fneg (v3z a)\<rparr>"

definition vec3_mul :: "vec3 \<Rightarrow> vec3 \<Rightarrow> vec3" where
  "vec3_mul a b =
     \<lparr>v3x = fmul (v3x a) (v3x b), v3y = fmul (v3y a) (v3y b), v3z = fmul (v3z a) (v3z b)\<rparr>"

definition vec3_div :: "vec3 \<Rightarrow> vec3 \<Rightarrow> vec3" where
  "vec3_div a b =
     \<lparr>v3x = fdiv (v3x a) (v3x b), v3y = fdiv (v3y a) (v3y b), v3z = fdiv (v3z a) (v3z b)\<rparr>"

subsection \<open>Magnitude, normalisation, interpolation, dot product (lines 110 to 116)\<close>

definition vec3_magnitude_sq :: "vec3 \<Rightarrow> float32" where
  "vec3_magnitude_sq a =
     fadd (fadd (fmul (v3x a) (v3x a)) (fmul (v3y a) (v3y a))) (fmul (v3z a) (v3z a))"

definition vec3_magnitude :: "vec3 \<Rightarrow> float32" where
  "vec3_magnitude a =
     fsqrt (fadd (fadd (fmul (v3x a) (v3x a)) (fmul (v3y a) (v3y a))) (fmul (v3z a) (v3z a)))"

definition vec3_normalize :: "vec3 \<Rightarrow> vec3" where
  "vec3_normalize a = vec3_div_s a (vec3_magnitude a)"

definition vec3_lerp :: "vec3 \<Rightarrow> vec3 \<Rightarrow> float32 \<Rightarrow> vec3" where
  "vec3_lerp a b t = vec3_add a (vec3_mul_s (vec3_sub b a) t)"


definition vec2_lerp :: "vec2 \<Rightarrow> vec2 \<Rightarrow> float32 \<Rightarrow> vec2" where
  "vec2_lerp a b t = vec2_add a (vec2_mul_s (vec2_sub b a) t)"

subsection \<open>Compound assignment (lines 93 to 96 and 105 to 108)\<close>

text \<open>
  \<open>a += b\<close> takes \<open>a\<close> and \<open>b\<close> by reference and writes the fields of \<open>a\<close> one after
  the other, so the two references may name the same object. Objects live in a store
  indexed by address; every field assignment reads the store as the previous one left
  it. The operator returns the reference \<open>a\<close>. The scalar of \<open>*=\<close> and \<open>/=\<close> is passed
  by value.
\<close>

type_synonym addr = nat

definition vec2_add_assign :: "(addr \<Rightarrow> vec2) \<Rightarrow> addr \<Rightarrow> addr \<Rightarrow> addr \<times> (addr \<Rightarrow> vec2)" where
  "vec2_add_assign h a b =
     (let h1 = h(a := (h a)\<lparr>v2x := fadd (v2x (h a)) (v2x (h b))\<rparr>);
          h2 = h1(a := (h1 a)\<lparr>v2y := fadd (v2y (h1 a)) (v2y (h1 b))\<rparr>)
      in (a, h2))"

definition vec2_sub_assign :: "(addr \<Rightarrow> vec2) \<Rightarrow> addr \<Rightarrow> addr \<Rightarrow> addr \<times> (addr \<Rightarrow> vec2)" where
  "vec2_sub_assign h a b =
     (let h1 = h(a := (h a)\<lparr>v2x := fsub (v2x (h a)) (v2x (h b))\<rparr>);
          h2 = h1(a := (h1 a)\<lparr>v2y := fsub (v2y (h1 a)) (v2y (h1 b))\<rparr>)
      in (a, h2))"

definition vec2_mul_assign :: "(addr \<Rightarrow> vec2) \<Rightarrow> addr \<Rightarrow> float32 \<Rightarrow> addr \<times> (addr \<Rightarrow> vec2)" where
  "vec2_mul_assign h a b =
     (let h1 = h(a := (h a)\<lparr>v2x := fmul (v2x (h a)) b\<rparr>);
          h2 = h1(a := (h1 a)\<lparr>v2y := fmul (v2y (h1 a)) b\<rparr>)
      in (a, h2))"

definition vec2_div_assign :: "(addr \<Rightarrow> vec2) \<Rightarrow> addr \<Rightarrow> float32 \<Rightarrow> addr \<times> (addr \<Rightarrow> vec2)" where
  "vec2_div_assign h a b =
     (let h1 = h(a := (h a)\<lparr>v2x := fdiv (v2x (h a)) b\<rparr>);
          h2 = h1(a := (h1 a)\<lparr>v2y := fdiv (v2y (h1 a)) b\<rparr>)
      in (a, h2))"

definition vec3_add_assign :: "(addr \<Rightarrow> vec3) \<Rightarrow> addr \<Rightarrow> addr \<Rightarrow> addr \<times> (addr \<Rightarrow> vec3)" where
  "vec3_add_assign h a b =
     (let h1 = h(a := (h a)\<lparr>v3x := fadd (v3x (h a)) (v3x (h b))\<rparr>);
          h2 = h1(a := (h1 a)\<lparr>v3y := fadd (v3y (h1 a)) (v3y (h1 b))\<rparr>);
          h3 = h2(a := (h2 a)\<lparr>v3z := fadd (v3z (h2 a)) (v3z (h2 b))\<rparr>)
      in (a, h3))"

definition vec3_sub_assign :: "(addr \<Rightarrow> vec3) \<Rightarrow> addr \<Rightarrow> addr \<Rightarrow> addr \<times> (addr \<Rightarrow> vec3)" where
  "vec3_sub_assign h a b =
     (let h1 = h(a := (h a)\<lparr>v3x := fsub (v3x (h a)) (v3x (h b))\<rparr>);
          h2 = h1(a := (h1 a)\<lparr>v3y := fsub (v3y (h1 a)) (v3y (h1 b))\<rparr>);
          h3 = h2(a := (h2 a)\<lparr>v3z := fsub (v3z (h2 a)) (v3z (h2 b))\<rparr>)
      in (a, h3))"

definition vec3_mul_assign :: "(addr \<Rightarrow> vec3) \<Rightarrow> addr \<Rightarrow> float32 \<Rightarrow> addr \<times> (addr \<Rightarrow> vec3)" where
  "vec3_mul_assign h a b =
     (let h1 = h(a := (h a)\<lparr>v3x := fmul (v3x (h a)) b\<rparr>);
          h2 = h1(a := (h1 a)\<lparr>v3y := fmul (v3y (h1 a)) b\<rparr>);
          h3 = h2(a := (h2 a)\<lparr>v3z := fmul (v3z (h2 a)) b\<rparr>)
      in (a, h3))"

definition vec3_div_assign :: "(addr \<Rightarrow> vec3) \<Rightarrow> addr \<Rightarrow> float32 \<Rightarrow> addr \<times> (addr \<Rightarrow> vec3)" where
  "vec3_div_assign h a b =
     (let h1 = h(a := (h a)\<lparr>v3x := fdiv (v3x (h a)) b\<rparr>);
          h2 = h1(a := (h1 a)\<lparr>v3y := fdiv (v3y (h1 a)) b\<rparr>);
          h3 = h2(a := (h2 a)\<lparr>v3z := fdiv (v3z (h2 a)) b\<rparr>)
      in (a, h3))"

subsection \<open>The constants (lines 149 to 155)\<close>

definition vec3_one :: vec3 where
  "vec3_one = \<lparr>v3x = float_of_int 1, v3y = float_of_int 1, v3z = float_of_int 1\<rparr>"

definition vec3_zero :: vec3 where
  "vec3_zero = \<lparr>v3x = float_of_int 0, v3y = float_of_int 0, v3z = float_of_int 0\<rparr>"

definition vec3_up :: vec3 where
  "vec3_up = \<lparr>v3x = float_of_int 0, v3y = float_of_int 1, v3z = float_of_int 0\<rparr>"

definition vec3_forward :: vec3 where
  "vec3_forward = \<lparr>v3x = float_of_int 0, v3y = float_of_int 0, v3z = float_of_int (- 1)\<rparr>"

definition vec3_right :: vec3 where
  "vec3_right = \<lparr>v3x = float_of_int 1, v3y = float_of_int 0, v3z = float_of_int 0\<rparr>"

definition quat_identity :: quat where
  "quat_identity =
     \<lparr>q_i = float_of_int 0, q_j = float_of_int 0, q_k = float_of_int 0, q_a = float_of_int 1\<rparr>"

definition mk_vec3 :: "int \<Rightarrow> int \<Rightarrow> int \<Rightarrow> vec3" where
  "mk_vec3 a b c = \<lparr>v3x = float_of_int a, v3y = float_of_int b, v3z = float_of_int c\<rparr>"

definition mk_vec4 :: "int \<Rightarrow> int \<Rightarrow> int \<Rightarrow> int \<Rightarrow> vec4" where
  "mk_vec4 a b c d =
     \<lparr>v4x = float_of_int a, v4y = float_of_int b, v4z = float_of_int c, v4w = float_of_int d\<rparr>"

definition matrix_identity :: matrix where
  "matrix_identity =
     \<lparr>row0 = mk_vec4 1 0 0 0, row1 = mk_vec4 0 1 0 0,
      row2 = mk_vec4 0 0 1 0, row3 = mk_vec4 0 0 0 1\<rparr>"

text \<open>Componentwise \<open>==\<close> and well-formedness, used to state the laws of interpolation.\<close>

definition vec2_feq :: "vec2 \<Rightarrow> vec2 \<Rightarrow> bool" where
  "vec2_feq a b = (feq (v2x a) (v2x b) \<and> feq (v2y a) (v2y b))"

definition vec3_feq :: "vec3 \<Rightarrow> vec3 \<Rightarrow> bool" where
  "vec3_feq a b = (feq (v3x a) (v3x b) \<and> feq (v3y a) (v3y b) \<and> feq (v3z a) (v3z b))"

text \<open>
  \<open>exact_sub b a\<close>: both are finite binary32 values and \<open>b - a\<close> is computed without any
  rounding error.
\<close>

fun exact_sub :: "float32 \<Rightarrow> float32 \<Rightarrow> bool" where
  "exact_sub (Fin sb qb) (Fin sa qa) =
     (is_float32 (Fin sb qb) \<and> is_float32 (Fin sa qa) \<and>
      (case fsub (Fin sb qb) (Fin sa qa) of
         Fin sd qd \<Rightarrow> sval sd qd = sval sb qb - sval sa qa
       | _ \<Rightarrow> False))"
| "exact_sub _ _ = False"

section \<open>The cached transform \<open>transform_t\<close> (lines 304 to 330)\<close>

text \<open>
  The fields \<open>_position\<close>, \<open>_scale\<close>, \<open>_rotation\<close>, \<open>_dirty\<close> and \<open>_transform\<close> of the
  header; the flag is a \<open>bool32_t\<close> that is only ever tested for truth.
\<close>

record transform_t =
  t_position :: vec3
  t_scale :: vec3
  t_rotation :: quat
  t_dirty :: bool
  t_transform :: matrix

text \<open>
  The quaternion and matrix routines the transform calls are declared on lines 118 to
  134 and defined elsewhere; what they return is a parameter of the model.
\<close>

record kernel =
  matrix_trs :: "vec3 \<Rightarrow> quat \<Rightarrow> vec3 \<Rightarrow> matrix"
  matrix_inverse :: "matrix \<Rightarrow> matrix"
  matrix_mul_point :: "matrix \<Rightarrow> vec3 \<Rightarrow> vec3"
  matrix_mul_direction :: "matrix \<Rightarrow> vec3 \<Rightarrow> vec3"
  quat_lookat :: "vec3 \<Rightarrow> vec3 \<Rightarrow> quat"
  quat_mul_vec :: "quat \<Rightarrow> vec3 \<Rightarrow> vec3"

text \<open>
  Modelled from the spec: the bodies of the \<open>transform_*\<close> functions, which the header
  only declares. Section 3: the initialize call sets identity defaults and dirty=true.
  Section 4.4: a setter updates its field and sets dirty=true; \<open>update\<close> and \<open>matrix\<close>
  recompute through \<open>trs\<close> and clear the flag if it is set, and otherwise leave the cached
  value unchanged; \<open>lookAt\<close> sets the rotation from the position and the target and marks
  dirty; \<open>forward\<close> rotates the canonical forward axis; the coordinate conversions
  refresh the matrix first and go through it or through its inverse, the \<open>_dir\<close> variants
  with the direction product. A function that takes the transform by reference returns
  the transform it leaves behind.
\<close>

definition transform_initialize :: "transform_t \<Rightarrow> transform_t" where
  \<comment> \<open>Modelled from the spec: section 3, the initialize call sets identity defaults
    and dirty=true; the cached matrix is left as it was.\<close>
  "transform_initialize t =
     t\<lparr>t_position := vec3_zero, t_scale := vec3_one, t_rotation := quat_identity,
       t_dirty := True\<rparr>"

definition transform_set :: "transform_t \<Rightarrow> vec3 \<Rightarrow> vec3 \<Rightarrow> quat \<Rightarrow> transform_t" where
  \<comment> \<open>Modelled from the spec: section 4.4, setters update the fields and set
    dirty=true.\<close>
  "transform_set t p s r = t\<lparr>t_position := p, t_scale := s, t_rotation := r, t_dirty := True\<rparr>"

definition transform_set_position :: "transform_t \<Rightarrow> vec3 \<Rightarrow> transform_t" where
  \<comment> \<open>Modelled from the spec: section 4.4, a setter updates its field and sets
    dirty=true.\<close>
  "transform_set_position t p = t\<lparr>t_position := p, t_dirty := True\<rparr>"

definition transform_get_position :: "transform_t \<Rightarrow> vec3" where
  \<comment> \<open>Modelled from the spec: the getter of the position declared on line 316; it
    reads the field.\<close>
  "transform_get_position t = t_position t"

definition transform_set_scale :: "transform_t \<Rightarrow> vec3 \<Rightarrow> transform_t" where
  \<comment> \<open>Modelled from the spec: section 4.4, a setter updates its field and sets
    dirty=true.\<close>
  "transform_set_scale t s = t\<lparr>t_scale := s, t_dirty := True\<rparr>"

definition transform_get_scale :: "transform_t \<Rightarrow> vec3" where
  \<comment> \<open>Modelled from the spec: the getter of the scale declared on line 318; it reads
    the field.\<close>
  "transform_get_scale t = t_scale t"

definition transform_set_rotation :: "transform_t \<Rightarrow> quat \<Rightarrow> transform_t" where
  \<comment> \<open>Modelled from the spec: section 4.4, a setter updates its field and sets
    dirty=true.\<close>
  "transform_set_rotation t r = t\<lparr>t_rotation := r, t_dirty := True\<rparr>"

definition transform_get_rotation :: "transform_t \<Rightarrow> quat" where
  \<comment> \<open>Modelled from the spec: the getter of the rotation declared on line 320; it
    reads the field.\<close>
  "transform_get_rotation t = t_rotation t"

definition transform_lookat :: "kernel \<Rightarrow> transform_t \<Rightarrow> vec3 \<Rightarrow> transform_t" where
  \<comment> \<open>Modelled from the spec: section 4.4, lookAt sets the rotation via
    lookAt(position, at) and marks dirty.\<close>
  "transform_lookat K t at_pt =
     t\<lparr>t_rotation := quat_lookat K (t_position t) at_pt, t_dirty := True\<rparr>"

definition transform_forward :: "kernel \<Rightarrow> transform_t \<Rightarrow> vec3" where
  \<comment> \<open>Modelled from the spec: section 4.4, forward returns rotate(rotation,
    canonicalForward).\<close>
  "transform_forward K t = quat_mul_vec K (t_rotation t) vec3_forward"

definition transform_update :: "kernel \<Rightarrow> transform_t \<Rightarrow> transform_t" where
  \<comment> \<open>Modelled from the spec: section 4.4, if dirty, recompute via trs and clear
    dirty; otherwise the cached value is unchanged.\<close>
  "transform_update K t =
     (if t_dirty t
      then t\<lparr>t_dirty := False,
             t_transform := matrix_trs K (t_position t) (t_rotation t) (t_scale t)\<rparr>
      else t)"

definition transform_matrix :: "kernel \<Rightarrow> transform_t \<Rightarrow> matrix \<times> transform_t" where
  \<comment> \<open>Modelled from the spec: section 4.4, matrix refreshes the cache as update does
    and returns it.\<close>
  "transform_matrix K t = (let t' = transform_update K t in (t_transform t', t'))"

definition transform_matrix_out :: "kernel \<Rightarrow> transform_t \<Rightarrow> matrix \<times> transform_t" where
  \<comment> \<open>Modelled from the spec: section 4.4, as transform_matrix, the result going to
    the output parameter.\<close>
  "transform_matrix_out K t = (let t' = transform_update K t in (t_transform t', t'))"

definition transform_world_to_local :: "kernel \<Rightarrow> transform_t \<Rightarrow> vec3 \<Rightarrow> vec3 \<times> transform_t" where
  \<comment> \<open>Modelled from the spec: section 4.4, worldToLocal refreshes the matrix if
    dirty, inverts it and transforms the point.\<close>
  "transform_world_to_local K t p =
     (let t' = transform_update K t
      in (matrix_mul_point K (matrix_inverse K (t_transform t')) p, t'))"

definition transform_local_to_world :: "kernel \<Rightarrow> transform_t \<Rightarrow> vec3 \<Rightarrow> vec3 \<times> transform_t" where
  \<comment> \<open>Modelled from the spec: section 4.4, localToWorld transforms the point through
    the refreshed cached matrix.\<close>
  "transform_local_to_world K t p =
     (let t' = transform_update K t in (matrix_mul_point K (t_transform t') p, t'))"

definition transform_world_to_local_dir :: "kernel \<Rightarrow> transform_t \<Rightarrow> vec3 \<Rightarrow> vec3 \<times> transform_t" where
  \<comment> \<open>Modelled from the spec: section 4.4, the direction variant of worldToLocal
    uses transformDirection.\<close>
  "transform_world_to_local_dir K t d =
     (let t' = transform_update K t
      in (matrix_mul_direction K (matrix_inverse K (t_transform t')) d, t'))"

definition transform_local_to_world_dir :: "kernel \<Rightarrow> transform_t \<Rightarrow> vec3 \<Rightarrow> vec3 \<times> transform_t" where
  \<comment> \<open>Modelled from the spec: section 4.4, the direction variant of localToWorld
    uses transformDirection.\<close>
  "transform_local_to_world_dir K t d =
     (let t' = transform_update K t in (matrix_mul_direction K (t_transform t') d, t'))"

text \<open>
  A client's use of a transform: any sequence of calls of the interface. \<open>run_call\<close> is
  the transform one call leaves behind, \<open>run_calls\<close> runs a sequence from left to right.
\<close>

datatype transform_call =
    Call_set vec3 vec3 quat
  | Call_set_position vec3
  | Call_get_position
  | Call_set_scale vec3
  | Call_get_scale
  | Call_set_rotation quat
  | Call_get_rotation
  | Call_lookat vec3
  | Call_forward
  | Call_update
  | Call_matrix_out
  | Call_matrix
  | Call_world_to_local vec3
  | Call_local_to_world vec3
  | Call_world_to_local_dir vec3
  | Call_local_to_world_dir vec3

fun run_call :: "kernel \<Rightarrow> transform_t \<Rightarrow> transform_call \<Rightarrow> transform_t" where
  "run_call K t (Call_set p s r) = transform_set t p s r"
| "run_call K t (Call_set_position p) = transform_set_position t p"
| "run_call K t Call_get_position = t"
| "run_call K t (Call_set_scale s) = transform_set_scale t s"
| "run_call K t Call_get_scale = t"
| "run_call K t (Call_set_rotation r) = transform_set_rotation t r"
| "run_call K t Call_get_rotation = t"
| "run_call K t (Call_lookat at_pt) = transform_lookat K t at_pt"
| "run_call K t Call_forward = t"
| "run_call K t Call_update = transform_update K t"
| "run_call K t Call_matrix_out = snd (transform_matrix_out K t)"
| "run_call K t Call_matrix = snd (transform_matrix K t)"
| "run_call K t (Call_world_to_local p) = snd (transform_world_to_local K t p)"
| "run_call K t (Call_local_to_world p) = snd (transform_local_to_world K t p)"
| "run_call K t (Call_world_to_local_dir d) = snd (transform_world_to_local_dir K t d)"
| "run_call K t (Call_local_to_world_dir d) = snd (transform_local_to_world_dir K t d)"

definition run_calls :: "kernel \<Rightarrow> transform_t \<Rightarrow> transform_call list \<Rightarrow> transform_t" where
  "run_calls K t cs = foldl (run_call K) t cs"

text \<open>The matrix the current fields compose to, and the invariant of the cache.\<close>

definition trs_of :: "kernel \<Rightarrow> transform_t \<Rightarrow> matrix" where
  "trs_of K t = matrix_trs K (t_position t) (t_rotation t) (t_scale t)"

definition cache_ok :: "kernel \<Rightarrow> transform_t \<Rightarrow> bool" where
  "cache_ok K t = (t_dirty t \<or> t_transform t = trs_of K t)"

text \<open>
  One instance of the parameters, to run the interface on concrete values: a \<open>trs\<close> that
  composes translation and scale and ignores the rotation, and trivial other routines.
\<close>

definition sample_trs :: "vec3 \<Rightarrow> quat \<Rightarrow> vec3 \<Rightarrow> matrix" where
  "sample_trs p r s =
     \<lparr>row0 = \<lparr>v4x = v3x s, v4y = float_of_int 0, v4z = float_of_int 0, v4w = float_of_int 0\<rparr>,
      row1 = \<lparr>v4x = float_of_int 0, v4y = v3y s, v4z = float_of_int 0, v4w = float_of_int 0\<rparr>,
      row2 = \<lparr>v4x = float_of_int 0, v4y = float_of_int 0, v4z = v3z s, v4w = float_of_int 0\<rparr>,
      row3 = \<lparr>v4x = v3x p, v4y = v3y p, v4z = v3z p, v4w = float_of_int 1\<rparr>\<rparr>"

definition sample_kernel :: kernel where
  "sample_kernel =
     \<lparr>matrix_trs = sample_trs, matrix_inverse = (\<lambda>m. m), matrix_mul_point = (\<lambda>m p. p),
      matrix_mul_direction = (\<lambda>m d. d), quat_lookat = (\<lambda>from at_pt. quat_identity),
      quat_mul_vec = (\<lambda>q v. v)\<rparr>"

text \<open>
  A concrete use: memory that claims to be clean while holding the identity matrix is
  initialised, moved to \<open>(1,0,0)\<close>, scaled by \<open>(2,2,2)\<close>, and its matrix is read.
\<close>

definition sample_memory :: transform_t where
  "sample_memory =
     \<lparr>t_position = vec3_up, t_scale = vec3_zero, t_rotation = quat_identity,
      t_dirty = False, t_transform = matrix_identity\<rparr>"

definition sample_calls :: "transform_call list" where
  "sample_calls =
     [Call_set_position (mk_vec3 1 0 0), Call_set_scale (mk_vec3 2 2 2), Call_matrix]"

section \<open>Ray and plane (line 136)\<close>









section \<open>The default resources (\<open>systems/defaults.cpp\<close>)\<close>

record color32 =
  c_r :: "8 word"
  c_g :: "8 word"
  c_b :: "8 word"
  c_a :: "8 word"

record vert_t =
  vert_pos :: vec3
  vert_norm :: vec3
  vert_uv :: vec2
  vert_col :: color32

text \<open>
  A resource handle is a pointer to a private struct: \<open>None\<close> is \<open>nullptr\<close>, and
  \<open>Some n\<close> is the object numbered \<open>n\<close>.
\<close>

type_synonym handle = "nat option"

text \<open>
  The resource functions are declared in the header and defined elsewhere in the engine.
  \<open>defaults_init\<close> calls each creation function once for each name, so what a creation
  returns in the run at hand is a parameter of the model, given per function and
  arguments. So are the four built-in shader sources of \<open>shader_builtin.h\<close>.
\<close>

record engine =
  tex2d_create :: "string \<Rightarrow> handle"
  mesh_create :: "string \<Rightarrow> handle"
  shader_create :: "string \<Rightarrow> string \<Rightarrow> handle"
  material_create :: "string \<Rightarrow> handle \<Rightarrow> handle"
  sk_shader_builtin_default :: string
  sk_shader_builtin_pbr :: string
  sk_shader_builtin_unlit :: string
  sk_shader_builtin_font :: string

text \<open>Every call into the engine is recorded, with its arguments and what it returned.\<close>

datatype call =
    Tex2d_create string handle
  | Tex2d_set_colors handle int int "color32 list"
  | Mesh_create string handle
  | Mesh_set_verts handle "vert_t list" int
  | Mesh_set_inds handle "16 word list" int
  | Shader_create string string handle
  | Material_create string handle handle
  | Material_set_texture handle string handle

text \<open>The eleven globals of the file and the record of calls.\<close>

record globals =
  sk_default_tex :: handle
  sk_default_tex_black :: handle
  sk_default_tex_gray :: handle
  sk_default_tex_flat :: handle
  sk_default_tex_rough :: handle
  sk_default_quad :: handle
  sk_default_shader :: handle
  sk_default_shader_pbr :: handle
  sk_default_shader_unlit :: handle
  sk_default_shader_font :: handle
  sk_default_material :: handle
  calls :: "call list"

definition do_tex2d_create :: "engine \<Rightarrow> string \<Rightarrow> globals \<Rightarrow> handle \<times> globals" where
  "do_tex2d_create E name g =
     (let r = tex2d_create E name in (r, g\<lparr>calls := calls g @ [Tex2d_create name r]\<rparr>))"

definition do_tex2d_set_colors ::
  "handle \<Rightarrow> int \<Rightarrow> int \<Rightarrow> color32 list \<Rightarrow> globals \<Rightarrow> globals" where
  "do_tex2d_set_colors h width height cs g =
     g\<lparr>calls := calls g @ [Tex2d_set_colors h width height cs]\<rparr>"

definition do_mesh_create :: "engine \<Rightarrow> string \<Rightarrow> globals \<Rightarrow> handle \<times> globals" where
  "do_mesh_create E name g =
     (let r = mesh_create E name in (r, g\<lparr>calls := calls g @ [Mesh_create name r]\<rparr>))"

definition do_mesh_set_verts :: "handle \<Rightarrow> vert_t list \<Rightarrow> int \<Rightarrow> globals \<Rightarrow> globals" where
  "do_mesh_set_verts h vs n g = g\<lparr>calls := calls g @ [Mesh_set_verts h vs n]\<rparr>"

definition do_mesh_set_inds :: "handle \<Rightarrow> 16 word list \<Rightarrow> int \<Rightarrow> globals \<Rightarrow> globals" where
  "do_mesh_set_inds h is n g = g\<lparr>calls := calls g @ [Mesh_set_inds h is n]\<rparr>"

definition do_shader_create :: "engine \<Rightarrow> string \<Rightarrow> string \<Rightarrow> globals \<Rightarrow> handle \<times> globals" where
  "do_shader_create E name src g =
     (let r = shader_create E name src
      in (r, g\<lparr>calls := calls g @ [Shader_create name src r]\<rparr>))"

definition do_material_create :: "engine \<Rightarrow> string \<Rightarrow> handle \<Rightarrow> globals \<Rightarrow> handle \<times> globals" where
  "do_material_create E name sh g =
     (let r = material_create E name sh
      in (r, g\<lparr>calls := calls g @ [Material_create name sh r]\<rparr>))"

definition do_material_set_texture :: "handle \<Rightarrow> string \<Rightarrow> handle \<Rightarrow> globals \<Rightarrow> globals" where
  "do_material_set_texture m name tex g =
     g\<lparr>calls := calls g @ [Material_set_texture m name tex]\<rparr>"

text \<open>\<open>for (size_t i = 0; i < 2 * 2; i++) tex_colors[i] = c;\<close>\<close>

definition fill_colors :: "color32 \<Rightarrow> color32 list \<Rightarrow> color32 list" where
  "fill_colors c tex_colors = fold (\<lambda>i cs. cs[i := c]) [0 ..< 2 * 2] tex_colors"

definition mk_color32 :: "8 word \<Rightarrow> 8 word \<Rightarrow> 8 word \<Rightarrow> 8 word \<Rightarrow> color32" where
  "mk_color32 r g b a = \<lparr>c_r = r, c_g = g, c_b = b, c_a = a\<rparr>"

definition mk_vec2 :: "int \<Rightarrow> int \<Rightarrow> vec2" where
  "mk_vec2 a b = \<lparr>v2x = float_of_int a, v2y = float_of_int b\<rparr>"

definition mk_vert :: "vec3 \<Rightarrow> vec3 \<Rightarrow> vec2 \<Rightarrow> color32 \<Rightarrow> vert_t" where
  "mk_vert p n u c = \<lparr>vert_pos = p, vert_norm = n, vert_uv = u, vert_col = c\<rparr>"

definition quad_verts :: "vert_t list" where
  "quad_verts =
     [mk_vert (mk_vec3 (- 1) (- 1) 0) (mk_vec3 0 0 (- 1)) (mk_vec2 0 0) (mk_color32 255 255 255 255),
      mk_vert (mk_vec3 1 (- 1) 0) (mk_vec3 0 0 (- 1)) (mk_vec2 1 0) (mk_color32 255 255 255 255),
      mk_vert (mk_vec3 1 1 0) (mk_vec3 0 0 (- 1)) (mk_vec2 1 1) (mk_color32 255 255 255 255),
      mk_vert (mk_vec3 (- 1) 1 0) (mk_vec3 0 0 (- 1)) (mk_vec2 0 1) (mk_color32 255 255 255 255)]"

definition quad_inds :: "16 word list" where
  "quad_inds = [0, 1, 2, 0, 2, 3]"

text \<open>
  \<open>defaults_init\<close>, statement by statement. The array \<open>tex_colors\<close> is first set to
  all-ones bytes by \<open>memset\<close> and then refilled before each later upload.
\<close>

definition defaults_init :: "engine \<Rightarrow> globals \<Rightarrow> bool \<times> globals" where
  "defaults_init E g0 =
     (let (r, g) = do_tex2d_create E ''default/tex2d'' g0;
          g = g\<lparr>sk_default_tex := r\<rparr>
      in if sk_default_tex g = None then (False, g) else
      let tex_colors = replicate (2 * 2) (mk_color32 255 255 255 255);
          g = do_tex2d_set_colors (sk_default_tex g) 2 2 tex_colors g;
          (r, g) = do_tex2d_create E ''default/tex2d_black'' g;
          g = g\<lparr>sk_default_tex_black := r\<rparr>
      in if sk_default_tex_black g = None then (False, g) else
      let tex_colors = fill_colors (mk_color32 0 0 0 255) tex_colors;
          g = do_tex2d_set_colors (sk_default_tex_black g) 2 2 tex_colors g;
          (r, g) = do_tex2d_create E ''default/tex2d_gray'' g;
          g = g\<lparr>sk_default_tex_gray := r\<rparr>
      in if sk_default_tex_gray g = None then (False, g) else
      let tex_colors = fill_colors (mk_color32 128 128 128 255) tex_colors;
          g = do_tex2d_set_colors (sk_default_tex_gray g) 2 2 tex_colors g;
          (r, g) = do_tex2d_create E ''default/tex2d_flat'' g;
          g = g\<lparr>sk_default_tex_flat := r\<rparr>
      in if sk_default_tex_flat g = None then (False, g) else
      let tex_colors = fill_colors (mk_color32 128 128 255 255) tex_colors;
          g = do_tex2d_set_colors (sk_default_tex_flat g) 2 2 tex_colors g;
          (r, g) = do_tex2d_create E ''default/tex2d_rough'' g;
          g = g\<lparr>sk_default_tex_rough := r\<rparr>
      in if sk_default_tex_rough g = None then (False, g) else
      let tex_colors = fill_colors (mk_color32 0 0 255 255) tex_colors;
          g = do_tex2d_set_colors (sk_default_tex_rough g) 2 2 tex_colors g;
          (r, g) = do_mesh_create E ''default/quad'' g;
          g = g\<lparr>sk_default_quad := r\<rparr>;
          g = do_mesh_set_verts (sk_default_quad g) quad_verts 4 g;
          g = do_mesh_set_inds (sk_default_quad g) quad_inds 6 g;
          (r, g) = do_shader_create E ''default/shader'' (sk_shader_builtin_default E) g;
          g = g\<lparr>sk_default_shader := r\<rparr>
      in if sk_default_shader g = None then (False, g) else
      let (r, g) = do_shader_create E ''default/shader_pbr'' (sk_shader_builtin_pbr E) g;
          g = g\<lparr>sk_default_shader_pbr := r\<rparr>
      in if sk_default_shader_pbr g = None then (False, g) else
      let (r, g) = do_shader_create E ''default/shader_unlit'' (sk_shader_builtin_unlit E) g;
          g = g\<lparr>sk_default_shader_unlit := r\<rparr>
      in if sk_default_shader_unlit g = None then (False, g) else
      let (r, g) = do_shader_create E ''default/shader_font'' (sk_shader_builtin_font E) g;
          g = g\<lparr>sk_default_shader_font := r\<rparr>
      in if sk_default_shader_font g = None then (False, g) else
      let (r, g) = do_material_create E ''default/material'' (sk_default_shader_pbr g) g;
          g = g\<lparr>sk_default_material := r\<rparr>
      in if sk_default_material g = None then (False, g) else
      let g = do_material_set_texture (sk_default_material g) ''diffuse'' (sk_default_tex g) g
      in (True, g))"

text \<open>
  What the record of calls shows: a checked creation that returned \<open>nullptr\<close>, the calls
  one run added, and the ten globals the function tests, in program order.
\<close>

fun failed_create :: "call \<Rightarrow> bool" where
  "failed_create (Tex2d_create name r) = (r = None)"
| "failed_create (Shader_create name src r) = (r = None)"
| "failed_create (Material_create name sh r) = (r = None)"
| "failed_create _ = False"

fun is_tex2d_create :: "call \<Rightarrow> bool" where
  "is_tex2d_create (Tex2d_create name r) = True"
| "is_tex2d_create _ = False"

fun is_shader_create :: "call \<Rightarrow> bool" where
  "is_shader_create (Shader_create name src r) = True"
| "is_shader_create _ = False"

fun is_material_create :: "call \<Rightarrow> bool" where
  "is_material_create (Material_create name sh r) = True"
| "is_material_create _ = False"

definition is_checked_create :: "call \<Rightarrow> bool" where
  "is_checked_create c = (is_tex2d_create c \<or> is_shader_create c \<or> is_material_create c)"

definition new_calls :: "globals \<Rightarrow> globals \<Rightarrow> call list" where
  "new_calls g g' = drop (length (calls g)) (calls g')"

definition checked_globals :: "globals \<Rightarrow> handle list" where
  "checked_globals g =
     [sk_default_tex g, sk_default_tex_black g, sk_default_tex_gray g, sk_default_tex_flat g,
      sk_default_tex_rough g, sk_default_shader g, sk_default_shader_pbr g,
      sk_default_shader_unlit g, sk_default_shader_font g, sk_default_material g]"

text \<open>
  Two runs on concrete values, started with stale handles in every global and nothing
  recorded: an engine in which only \<open>mesh_create\<close> returns \<open>nullptr\<close>, and one in which
  the mesh is created and only the third shader fails to compile.
\<close>

definition sample_engine :: engine where
  "sample_engine =
     \<lparr>tex2d_create = (\<lambda>name. Some 1), mesh_create = (\<lambda>name. None),
      shader_create = (\<lambda>name src. Some 2), material_create = (\<lambda>name sh. Some 3),
      sk_shader_builtin_default = ''d'', sk_shader_builtin_pbr = ''p'',
      sk_shader_builtin_unlit = ''u'', sk_shader_builtin_font = ''f''\<rparr>"

definition failing_engine :: engine where
  "failing_engine =
     sample_engine\<lparr>mesh_create := (\<lambda>name. Some 4),
       shader_create :=
         (\<lambda>name src. if name = ''default/shader_unlit'' then None else Some 2)\<rparr>"

definition sample_globals :: globals where
  "sample_globals =
     \<lparr>sk_default_tex = Some 90, sk_default_tex_black = Some 91, sk_default_tex_gray = Some 92,
      sk_default_tex_flat = Some 93, sk_default_tex_rough = Some 94, sk_default_quad = Some 95,
      sk_default_shader = Some 96, sk_default_shader_pbr = Some 97,
      sk_default_shader_unlit = Some 98, sk_default_shader_font = Some 99,
      sk_default_material = Some 100, calls = []\<rparr>"

section \<open>Properties of the binary32 model\<close>

text \<open>
  The rounding of the model on known binary32 values: \<open>1.0f / 3.0f\<close> is \<open>0x3EAAAAAB\<close>,
  \<open>sqrtf(2.0f)\<close> is \<open>0x3FB504F3\<close>, \<open>2^24 + 1\<close> is not representable and rounds to the even
  neighbour, \<open>2^100 * 2^100\<close> overflows and \<open>2^-100 * 2^-100\<close> underflows to zero.
\<close>

lemma binary32_examples:
  "fdiv (float_of_int 1) (float_of_int 3) = Fin False (11184811 / 33554432)"
  "fsqrt (float_of_int 2) = Fin False (11863283 / 8388608)"
  "float_of_int 16777217 = Fin False 16777216"
  "fadd (float_of_int 16777216) (float_of_int 1) = Fin False 16777216"
  "fmul (Fin False (pow2 100)) (Fin False (pow2 100)) = Inf False"
  "fmul (Fin True (pow2 (- 100))) (Fin False (pow2 (- 100))) = Fin True 0"
  by code_simp+

lemma pow2_pos: "0 < pow2 e"
  by (simp add: pow2_def)

lemma ulp_pos: "0 < ulp q"
  by (simp add: ulp_def pow2_pos)

lemma rne_of_int: "rne (of_int k) = k"
  by (simp add: rne_def)

lemma round_mag_on_grid:
  assumes "of_int \<lfloor>q / ulp q\<rfloor> = q / ulp q"
  shows "round_mag q = q"
proof -
  have "rne (q / ulp q) = rne (of_int \<lfloor>q / ulp q\<rfloor>)"
    by (simp only: assms)
  then have "rne (q / ulp q) = \<lfloor>q / ulp q\<rfloor>"
    by (simp only: rne_of_int)
  then have "round_mag q = of_int \<lfloor>q / ulp q\<rfloor> * ulp q"
    by (simp only: round_mag_def)
  also have "\<dots> = (q / ulp q) * ulp q"
    by (simp only: assms)
  also have "\<dots> = q"
    using ulp_pos [of q] by simp
  finally show ?thesis .
qed

lemma round_to_float32:
  assumes "is_float32 (Fin s q)" and "q \<noteq> 0"
  shows "round_to zs (sval s q) = Fin s q"
proof -
  from assms have pos: "0 < q" and lt: "q < pow2 128"
    and grid: "of_int \<lfloor>q / ulp q\<rfloor> = q / ulp q"
    by simp_all
  have abs: "\<bar>sval s q\<bar> = q" and neg: "(sval s q < 0) = s" and nz: "sval s q \<noteq> 0"
    using pos by (auto simp: sval_def)
  show ?thesis
    using lt by (simp add: round_to_def nz abs neg round_mag_on_grid [OF grid])
qed

lemma sval_not: "sval (\<not> s) q = - sval s q"
  by (simp add: sval_def)

lemma sval_zero: "sval s 0 = 0"
  by (simp add: sval_def)

lemma float_of_int_0: "float_of_int 0 = Fin False 0"
  by (simp add: float_of_int_def round_to_def)

lemma float_of_int_1: "float_of_int 1 = Fin False 1"
  by code_simp

lemma float_of_int_m1: "float_of_int (- 1) = Fin True 1"
  by code_simp

lemma fmul_zero: "fmul (Fin sd qd) (Fin False 0) = Fin sd 0"
  by (simp add: round_to_def sval_zero)

lemma fadd_zero_feq:
  assumes "is_float32 (Fin sa qa)"
  shows "feq (fadd (Fin sa qa) (Fin sd 0)) (Fin sa qa)"
proof (cases "qa = 0")
  case True
  then show ?thesis by (simp add: round_to_def sval_zero)
next
  case False
  show ?thesis
    using round_to_float32 [OF assms False] by (simp add: sval_zero)
qed

lemma lerp_at_zero:
  assumes "is_float32 a" and "is_finite a" and "is_finite (fsub b a)"
  shows "feq (fadd a (fmul (fsub b a) (float_of_int 0))) a"
proof -
  from assms(2) obtain sa qa where a: "a = Fin sa qa"
    by (cases a) auto
  from assms(3) obtain sd qd where d: "fsub b (Fin sa qa) = Fin sd qd"
    unfolding a by (cases "fsub b (Fin sa qa)") auto
  have va: "is_float32 (Fin sa qa)"
    using assms(1) a by simp
  show ?thesis
    unfolding a d float_of_int_0 fmul_zero by (rule fadd_zero_feq [OF va])
qed

lemma round_to_exact:
  assumes "round_to zs r = Fin sd qd" and "sval sd qd = r"
  shows "round_to sd r = Fin sd qd"
proof (cases "r = 0")
  case True
  with assms show ?thesis by (simp add: round_to_def)
next
  case False
  with assms show ?thesis by (simp add: round_to_def)
qed

lemma fmul_one_exact:
  assumes "round_to zs r = Fin sd qd" and "sval sd qd = r"
  shows "fmul (Fin sd qd) (Fin False 1) = Fin sd qd"
proof -
  have "sval sd qd * sval False 1 = r"
    using assms(2) by (simp add: sval_def)
  then show ?thesis
    using round_to_exact [OF assms] by simp
qed

lemma fadd_exact_feq:
  assumes "is_float32 (Fin sb qb)"
  shows "feq (round_to zs (sval sb qb)) (Fin sb qb)"
proof (cases "qb = 0")
  case True
  then show ?thesis by (simp add: round_to_def sval_zero)
next
  case False
  show ?thesis
    using round_to_float32 [OF assms False] by simp
qed

lemma lerp_at_one:
  assumes "exact_sub b a"
  shows "feq (fadd a (fmul (fsub b a) (float_of_int 1))) b"
proof -
  from assms obtain sa qa sb qb where a: "a = Fin sa qa" and b: "b = Fin sb qb"
    by (cases b; cases a) auto
  from assms obtain sd qd where d: "fsub (Fin sb qb) (Fin sa qa) = Fin sd qd"
    and ex: "sval sd qd = sval sb qb - sval sa qa"
    unfolding a b by (auto split: float32.splits)
  have vb: "is_float32 (Fin sb qb)"
    using assms by (simp add: a b)
  have rd: "round_to (sb \<and> \<not> sa) (sval sb qb - sval sa qa) = Fin sd qd"
    using d by (simp add: fsub_def sval_not)
  have m: "fmul (Fin sd qd) (float_of_int 1) = Fin sd qd"
    unfolding float_of_int_1 by (rule fmul_one_exact [OF rd ex])
  have "fadd (Fin sa qa) (Fin sd qd) = round_to (sa \<and> sd) (sval sb qb)"
    by (simp add: ex)
  then show ?thesis
    unfolding a b d m using fadd_exact_feq [OF vb] by simp
qed

lemma fdiv_by_zero: "is_zero m \<Longrightarrow> is_nan (fdiv x m) \<or> is_inf (fdiv x m)"
  by (cases m; cases x) simp_all

lemma rne_nonneg: "0 \<le> n \<Longrightarrow> 0 \<le> rne n"
  by (auto simp: rne_def Let_def)

lemma round_mag_nonneg: "0 \<le> q \<Longrightarrow> 0 \<le> round_mag q"
  using ulp_pos [of q] by (simp add: round_mag_def rne_nonneg)

lemma round_to_nonneg: "0 \<le> r \<Longrightarrow> is_nonneg (round_to False r)"
  by (simp add: round_to_def Let_def round_mag_nonneg)

lemma fmul_self_nonneg: "\<not> is_nan x \<Longrightarrow> is_nonneg (fmul x x)"
  by (cases x) (simp_all add: round_to_nonneg sval_def)

lemma fadd_nonneg: "is_nonneg x \<Longrightarrow> is_nonneg y \<Longrightarrow> is_nonneg (fadd x y)"
  by (cases x; cases y) (simp_all add: round_to_nonneg sval_def)

lemma fsqrt_nonneg: "is_nonneg x \<Longrightarrow> \<not> is_nan (fsqrt x)"
  by (cases x) simp_all

lemma fmul_nan: "is_nan x \<Longrightarrow> fmul x y = NaN"
  by (cases x) simp_all

lemma fadd_nan_left: "fadd NaN y = NaN"
  by simp

lemma fadd_nan_right: "fadd x NaN = NaN"
  by (cases x) simp_all

lemma feq_refl_iff: "feq x x \<longleftrightarrow> \<not> is_nan x"
  by (cases x) simp_all

lemma magnitude_nan_iff:
  "is_nan (vec3_magnitude a) \<longleftrightarrow> is_nan (v3x a) \<or> is_nan (v3y a) \<or> is_nan (v3z a)"
proof
  assume "is_nan (v3x a) \<or> is_nan (v3y a) \<or> is_nan (v3z a)"
  then show "is_nan (vec3_magnitude a)"
    by (auto simp: vec3_magnitude_def fmul_nan fadd_nan_right)
next
  assume n: "is_nan (vec3_magnitude a)"
  show "is_nan (v3x a) \<or> is_nan (v3y a) \<or> is_nan (v3z a)"
  proof (rule ccontr)
    assume "\<not> (is_nan (v3x a) \<or> is_nan (v3y a) \<or> is_nan (v3z a))"
    then have "is_nonneg (fadd (fadd (fmul (v3x a) (v3x a)) (fmul (v3y a) (v3y a)))
                               (fmul (v3z a) (v3z a)))"
      by (simp add: fadd_nonneg fmul_self_nonneg)
    then have "\<not> is_nan (vec3_magnitude a)"
      unfolding vec3_magnitude_def by (rule fsqrt_nonneg)
    with n show False by simp
  qed
qed

lemma fsub_finite: "is_finite (fsub b a) \<Longrightarrow> is_finite a \<and> is_finite b"
  by (cases a; cases b) (simp_all add: fsub_def split: if_splits)

lemma lerp_at_zero_iff:
  assumes "is_float32 a"
  shows "feq (fadd a (fmul (fsub b a) (float_of_int 0))) a \<longleftrightarrow> is_finite (fsub b a)"
proof
  assume f: "is_finite (fsub b a)"
  from fsub_finite [OF f] have fa: "is_finite a" ..
  show "feq (fadd a (fmul (fsub b a) (float_of_int 0))) a"
    by (rule lerp_at_zero [OF assms fa f])
next
  assume e: "feq (fadd a (fmul (fsub b a) (float_of_int 0))) a"
  show "is_finite (fsub b a)"
  proof (rule ccontr)
    assume "\<not> is_finite (fsub b a)"
    then have "fmul (fsub b a) (float_of_int 0) = NaN"
      by (cases "fsub b a") (simp_all add: float_of_int_0)
    then have "fadd a (fmul (fsub b a) (float_of_int 0)) = NaN"
      by (simp add: fadd_nan_right)
    with e show False by simp
  qed
qed

section \<open>Vector algebra\<close>

text \<open>
  C6. Every binary operator, the negation and the scalar products of \<open>vec3\<close>, and the
  operators of \<open>vec2\<close> (which has no negation), return a new vector whose every component
  is the corresponding operation on the components of the operands. The operands are
  passed by \<open>const\<close> reference and the operators are pure functions of them, so neither
  operand is modified.
\<close>

theorem vec_arith_componentwise:
  "vec3_add a b = \<lparr>v3x = fadd (v3x a) (v3x b), v3y = fadd (v3y a) (v3y b), v3z = fadd (v3z a) (v3z b)\<rparr>
   \<and> vec3_sub a b = \<lparr>v3x = fsub (v3x a) (v3x b), v3y = fsub (v3y a) (v3y b), v3z = fsub (v3z a) (v3z b)\<rparr>
   \<and> vec3_neg a = \<lparr>v3x = fneg (v3x a), v3y = fneg (v3y a), v3z = fneg (v3z a)\<rparr>
   \<and> vec3_mul_s a s = \<lparr>v3x = fmul (v3x a) s, v3y = fmul (v3y a) s, v3z = fmul (v3z a) s\<rparr>
   \<and> vec3_div_s a s = \<lparr>v3x = fdiv (v3x a) s, v3y = fdiv (v3y a) s, v3z = fdiv (v3z a) s\<rparr>
   \<and> vec3_mul a b = \<lparr>v3x = fmul (v3x a) (v3x b), v3y = fmul (v3y a) (v3y b), v3z = fmul (v3z a) (v3z b)\<rparr>
   \<and> vec3_div a b = \<lparr>v3x = fdiv (v3x a) (v3x b), v3y = fdiv (v3y a) (v3y b), v3z = fdiv (v3z a) (v3z b)\<rparr>
   \<and> vec2_add c d = \<lparr>v2x = fadd (v2x c) (v2x d), v2y = fadd (v2y c) (v2y d)\<rparr>
   \<and> vec2_sub c d = \<lparr>v2x = fsub (v2x c) (v2x d), v2y = fsub (v2y c) (v2y d)\<rparr>
   \<and> vec2_mul_s c s = \<lparr>v2x = fmul (v2x c) s, v2y = fmul (v2y c) s\<rparr>
   \<and> vec2_div_s c s = \<lparr>v2x = fdiv (v2x c) s, v2y = fdiv (v2y c) s\<rparr>
   \<and> vec2_mul c d = \<lparr>v2x = fmul (v2x c) (v2x d), v2y = fmul (v2y c) (v2y d)\<rparr>
   \<and> vec2_div c d = \<lparr>v2x = fdiv (v2x c) (v2x d), v2y = fdiv (v2y c) (v2y d)\<rparr>"
  by (simp only: vec3_add_def vec3_sub_def vec3_neg_def vec3_mul_s_def vec3_div_s_def
      vec3_mul_def vec3_div_def vec2_add_def vec2_sub_def vec2_mul_s_def vec2_div_s_def
      vec2_mul_def vec2_div_def simp_thms)

text \<open>
  C7, as claimed, fails: \<open>vec3_magnitude(a) == sqrtf(vec3_magnitude_sq(a))\<close> does not hold
  for all inputs. For \<open>a = (NaN, 0, 0)\<close> both sides are NaN, and \<open>==\<close> is false of a NaN
  and itself.
\<close>

theorem magnitude_eq_counterexample:
  "\<not> feq (vec3_magnitude \<lparr>v3x = NaN, v3y = float_of_int 0, v3z = float_of_int 0\<rparr>)
         (fsqrt (vec3_magnitude_sq \<lparr>v3x = NaN, v3y = float_of_int 0, v3z = float_of_int 0\<rparr>))"
  by code_simp

text \<open>
  C7, amended. \<open>vec3_magnitude_sq(a)\<close> is \<open>a.x*a.x + a.y*a.y + a.z*a.z\<close> and
  \<open>vec3_magnitude(a)\<close> is \<open>sqrtf\<close> of that same sum, so the two functions agree on the value
  they compute; the comparison \<open>vec3_magnitude(a) == sqrtf(vec3_magnitude_sq(a))\<close> holds
  exactly when no component of \<open>a\<close> is a NaN.
\<close>

theorem magnitude_sqrt_magnitude_sq:
  "vec3_magnitude_sq a =
     fadd (fadd (fmul (v3x a) (v3x a)) (fmul (v3y a) (v3y a))) (fmul (v3z a) (v3z a))
   \<and> vec3_magnitude a = fsqrt (vec3_magnitude_sq a)
   \<and> (feq (vec3_magnitude a) (fsqrt (vec3_magnitude_sq a))
        \<longleftrightarrow> \<not> is_nan (v3x a) \<and> \<not> is_nan (v3y a) \<and> \<not> is_nan (v3z a))"
proof -
  have e: "vec3_magnitude a = fsqrt (vec3_magnitude_sq a)"
    by (simp only: vec3_magnitude_def vec3_magnitude_sq_def)
  have "feq (vec3_magnitude a) (fsqrt (vec3_magnitude_sq a)) \<longleftrightarrow> \<not> is_nan (vec3_magnitude a)"
    by (simp only: e [symmetric] feq_refl_iff)
  then have c: "feq (vec3_magnitude a) (fsqrt (vec3_magnitude_sq a))
        \<longleftrightarrow> \<not> is_nan (v3x a) \<and> \<not> is_nan (v3y a) \<and> \<not> is_nan (v3z a)"
    by (simp only: magnitude_nan_iff de_Morgan_disj)
  have d: "vec3_magnitude_sq a =
     fadd (fadd (fmul (v3x a) (v3x a)) (fmul (v3y a) (v3y a))) (fmul (v3z a) (v3z a))"
    by (simp only: vec3_magnitude_sq_def)
  from d e c show ?thesis by (intro conjI)
qed

theorem magnitude_sqrt_magnitude_sq_witness:
  "\<not> is_nan (float_of_int 3) \<and> \<not> is_nan (float_of_int 4) \<and> \<not> is_nan (float_of_int 0)
   \<and> vec3_magnitude \<lparr>v3x = float_of_int 3, v3y = float_of_int 4, v3z = float_of_int 0\<rparr>
       = Fin False 5
   \<and> feq (vec3_magnitude \<lparr>v3x = float_of_int 3, v3y = float_of_int 4, v3z = float_of_int 0\<rparr>)
        (fsqrt (vec3_magnitude_sq \<lparr>v3x = float_of_int 3, v3y = float_of_int 4, v3z = float_of_int 0\<rparr>))"
proof -
  have n: "\<not> is_nan (float_of_int 3)" "\<not> is_nan (float_of_int 4)" "\<not> is_nan (float_of_int 0)"
    by code_simp+
  have m: "vec3_magnitude \<lparr>v3x = float_of_int 3, v3y = float_of_int 4, v3z = float_of_int 0\<rparr>
       = Fin False 5"
    by code_simp
  note T = magnitude_sqrt_magnitude_sq
         [of "\<lparr>v3x = float_of_int 3, v3y = float_of_int 4, v3z = float_of_int 0\<rparr>"]
  have "feq (vec3_magnitude \<lparr>v3x = float_of_int 3, v3y = float_of_int 4, v3z = float_of_int 0\<rparr>)
        (fsqrt (vec3_magnitude_sq \<lparr>v3x = float_of_int 3, v3y = float_of_int 4, v3z = float_of_int 0\<rparr>))"
    by (rule T [THEN conjunct2, THEN conjunct2, THEN iffD2]) (simp add: n)
  with n m show ?thesis by (intro conjI)
qed

text \<open>
  C9. Compound assignment agrees with the binary operators: \<open>a += b\<close>, \<open>a -= b\<close>,
  \<open>a *= s\<close> and \<open>a /= s\<close> leave in \<open>a\<close> what the binary operator returns on the old value
  of \<open>a\<close>, leave every other object as it was, and return the reference \<open>a\<close>; this
  holds as well when \<open>a\<close> and \<open>b\<close> are the same object.
\<close>

theorem compound_assignment_agrees:
  "vec3_add_assign h a b = (a, h(a := vec3_add (h a) (h b)))
   \<and> vec3_sub_assign h a b = (a, h(a := vec3_sub (h a) (h b)))
   \<and> vec3_mul_assign h a s = (a, h(a := vec3_mul_s (h a) s))
   \<and> vec3_div_assign h a s = (a, h(a := vec3_div_s (h a) s))
   \<and> vec2_add_assign k a b = (a, k(a := vec2_add (k a) (k b)))
   \<and> vec2_sub_assign k a b = (a, k(a := vec2_sub (k a) (k b)))
   \<and> vec2_mul_assign k a s = (a, k(a := vec2_mul_s (k a) s))
   \<and> vec2_div_assign k a s = (a, k(a := vec2_div_s (k a) s))"
proof -
  have 3: "\<lparr>v3x = p, v3y = v3y u, v3z = v3z u\<rparr> = u\<lparr>v3x := p\<rparr>" for u p
    by simp
  show ?thesis
    by (simp add: vec3_add_assign_def vec3_sub_assign_def vec3_mul_assign_def
        vec3_div_assign_def vec2_add_assign_def vec2_sub_assign_def vec2_mul_assign_def
        vec2_div_assign_def vec3_add_def vec3_sub_def vec3_mul_s_def vec3_div_s_def
        vec2_add_def vec2_sub_def vec2_mul_s_def vec2_div_s_def Let_def fun_eq_iff)
qed

text \<open>
  C8. The constants of the header: \<open>vec3_up = (0,1,0)\<close>, \<open>vec3_forward = (0,0,-1)\<close>,
  \<open>vec3_right = (1,0,0)\<close>, \<open>quat_identity = (0,0,0,1)\<close>, whose magnitude
  \<open>sqrtf(i*i + j*j + k*k + a*a)\<close> is exactly 1, and \<open>matrix_identity\<close> with the rows
  \<open>(1,0,0,0)\<close>, \<open>(0,1,0,0)\<close>, \<open>(0,0,1,0)\<close>, \<open>(0,0,0,1)\<close>.
\<close>

theorem header_constants:
  "vec3_up = \<lparr>v3x = Fin False 0, v3y = Fin False 1, v3z = Fin False 0\<rparr>
   \<and> vec3_forward = \<lparr>v3x = Fin False 0, v3y = Fin False 0, v3z = Fin True 1\<rparr>
   \<and> vec3_right = \<lparr>v3x = Fin False 1, v3y = Fin False 0, v3z = Fin False 0\<rparr>
   \<and> quat_identity = \<lparr>q_i = Fin False 0, q_j = Fin False 0, q_k = Fin False 0, q_a = Fin False 1\<rparr>
   \<and> fsqrt (fadd (fadd (fadd (fmul (q_i quat_identity) (q_i quat_identity))
                              (fmul (q_j quat_identity) (q_j quat_identity)))
                        (fmul (q_k quat_identity) (q_k quat_identity)))
                  (fmul (q_a quat_identity) (q_a quat_identity))) = Fin False 1
   \<and> row0 matrix_identity = \<lparr>v4x = Fin False 1, v4y = Fin False 0, v4z = Fin False 0, v4w = Fin False 0\<rparr>
   \<and> row1 matrix_identity = \<lparr>v4x = Fin False 0, v4y = Fin False 1, v4z = Fin False 0, v4w = Fin False 0\<rparr>
   \<and> row2 matrix_identity = \<lparr>v4x = Fin False 0, v4y = Fin False 0, v4z = Fin False 1, v4w = Fin False 0\<rparr>
   \<and> row3 matrix_identity = \<lparr>v4x = Fin False 0, v4y = Fin False 0, v4z = Fin False 0, v4w = Fin False 1\<rparr>"
proof -
  have m: "fsqrt (fadd (fadd (fadd (fmul (q_i quat_identity) (q_i quat_identity))
                              (fmul (q_j quat_identity) (q_j quat_identity)))
                        (fmul (q_k quat_identity) (q_k quat_identity)))
                  (fmul (q_a quat_identity) (q_a quat_identity))) = Fin False 1"
    by code_simp
  show ?thesis
    unfolding m
    by (simp add: vec3_up_def vec3_forward_def vec3_right_def quat_identity_def
        matrix_identity_def mk_vec4_def float_of_int_0 float_of_int_1 float_of_int_m1)
qed

text \<open>
  C5. \<open>vec3_normalize\<close> has no zero-magnitude check: for every input it divides each
  component by \<open>vec3_magnitude\<close> of the input. For \<open>(0,0,0)\<close> the magnitude is zero and
  every component of the result is NaN; whenever the magnitude is zero every component
  of the result is a NaN or an infinity. The result is an ordinary \<open>vec3\<close>: no error is
  signalled.
\<close>

theorem normalize_unguarded:
  "vec3_normalize a =
     \<lparr>v3x = fdiv (v3x a) (vec3_magnitude a), v3y = fdiv (v3y a) (vec3_magnitude a),
      v3z = fdiv (v3z a) (vec3_magnitude a)\<rparr>
   \<and> vec3_magnitude vec3_zero = Fin False 0
   \<and> vec3_normalize vec3_zero = \<lparr>v3x = NaN, v3y = NaN, v3z = NaN\<rparr>
   \<and> (is_zero (vec3_magnitude a) \<longrightarrow>
        (is_nan (v3x (vec3_normalize a)) \<or> is_inf (v3x (vec3_normalize a))) \<and>
        (is_nan (v3y (vec3_normalize a)) \<or> is_inf (v3y (vec3_normalize a))) \<and>
        (is_nan (v3z (vec3_normalize a)) \<or> is_inf (v3z (vec3_normalize a))))"
proof -
  have 1: "vec3_normalize a =
     \<lparr>v3x = fdiv (v3x a) (vec3_magnitude a), v3y = fdiv (v3y a) (vec3_magnitude a),
      v3z = fdiv (v3z a) (vec3_magnitude a)\<rparr>"
    by (simp only: vec3_normalize_def vec3_div_s_def)
  have 2: "vec3_magnitude vec3_zero = Fin False 0"
    by code_simp
  have 3: "vec3_normalize vec3_zero = \<lparr>v3x = NaN, v3y = NaN, v3z = NaN\<rparr>"
    by code_simp
  have 4: "is_zero (vec3_magnitude a) \<longrightarrow>
        (is_nan (v3x (vec3_normalize a)) \<or> is_inf (v3x (vec3_normalize a))) \<and>
        (is_nan (v3y (vec3_normalize a)) \<or> is_inf (v3y (vec3_normalize a))) \<and>
        (is_nan (v3z (vec3_normalize a)) \<or> is_inf (v3z (vec3_normalize a)))"
    by (simp add: 1 fdiv_by_zero)
  from 1 2 3 4 show ?thesis by (intro conjI)
qed

theorem normalize_unguarded_witness:
  "is_zero (vec3_magnitude \<lparr>v3x = Fin False (pow2 (- 100)), v3y = Fin False 0, v3z = Fin False 0\<rparr>)
   \<and> is_float32 (Fin False (pow2 (- 100)))
   \<and> vec3_normalize \<lparr>v3x = Fin False (pow2 (- 100)), v3y = Fin False 0, v3z = Fin False 0\<rparr>
       = \<lparr>v3x = Inf False, v3y = NaN, v3z = NaN\<rparr>
   \<and> (is_nan (v3x (vec3_normalize \<lparr>v3x = Fin False (pow2 (- 100)), v3y = Fin False 0, v3z = Fin False 0\<rparr>))
       \<or> is_inf (v3x (vec3_normalize \<lparr>v3x = Fin False (pow2 (- 100)), v3y = Fin False 0, v3z = Fin False 0\<rparr>)))"
proof -
  have z: "is_zero (vec3_magnitude \<lparr>v3x = Fin False (pow2 (- 100)), v3y = Fin False 0, v3z = Fin False 0\<rparr>)"
    by code_simp
  have f: "is_float32 (Fin False (pow2 (- 100)))"
    by code_simp
  have n: "vec3_normalize \<lparr>v3x = Fin False (pow2 (- 100)), v3y = Fin False 0, v3z = Fin False 0\<rparr>
       = \<lparr>v3x = Inf False, v3y = NaN, v3z = NaN\<rparr>"
    by code_simp
  from normalize_unguarded
         [of "\<lparr>v3x = Fin False (pow2 (- 100)), v3y = Fin False 0, v3z = Fin False 0\<rparr>"] z
  have "is_nan (v3x (vec3_normalize \<lparr>v3x = Fin False (pow2 (- 100)), v3y = Fin False 0, v3z = Fin False 0\<rparr>))
       \<or> is_inf (v3x (vec3_normalize \<lparr>v3x = Fin False (pow2 (- 100)), v3y = Fin False 0, v3z = Fin False 0\<rparr>))"
    by blast
  with z f n show ?thesis by (intro conjI)
qed

text \<open>
  C4, as claimed, fails: the interpolation is not exact at its endpoints for all
  vectors. With \<open>a = (2^25, 0, 0)\<close> and \<open>b = (1, 0, 0)\<close> the difference \<open>b - a\<close> rounds to
  \<open>-2^25\<close> and \<open>vec3_lerp(a, b, 1)\<close> is \<open>(0, 0, 0)\<close>, not \<open>b\<close>. With \<open>a.x = -FLT_MAX\<close> and
  \<open>b.x = FLT_MAX\<close> the difference overflows and \<open>vec3_lerp(a, b, 0)\<close> has a NaN where \<open>a\<close>
  has \<open>-FLT_MAX\<close>.
\<close>

theorem lerp_endpoint_counterexample:
  "is_float32 (float_of_int 33554432) \<and> is_float32 (float_of_int 1) \<and> is_float32 (float_of_int 0)
   \<and> vec3_lerp \<lparr>v3x = float_of_int 33554432, v3y = float_of_int 0, v3z = float_of_int 0\<rparr>
               \<lparr>v3x = float_of_int 1, v3y = float_of_int 0, v3z = float_of_int 0\<rparr>
               (float_of_int 1)
       = \<lparr>v3x = Fin False 0, v3y = Fin False 0, v3z = Fin False 0\<rparr>
   \<and> \<not> vec3_feq (vec3_lerp \<lparr>v3x = float_of_int 33554432, v3y = float_of_int 0, v3z = float_of_int 0\<rparr>
                           \<lparr>v3x = float_of_int 1, v3y = float_of_int 0, v3z = float_of_int 0\<rparr>
                           (float_of_int 1))
                 \<lparr>v3x = float_of_int 1, v3y = float_of_int 0, v3z = float_of_int 0\<rparr>
   \<and> is_float32 (Fin True (pow2 128 - pow2 104)) \<and> is_float32 (Fin False (pow2 128 - pow2 104))
   \<and> \<not> vec3_feq (vec3_lerp \<lparr>v3x = Fin True (pow2 128 - pow2 104), v3y = float_of_int 0, v3z = float_of_int 0\<rparr>
                           \<lparr>v3x = Fin False (pow2 128 - pow2 104), v3y = float_of_int 0, v3z = float_of_int 0\<rparr>
                           (float_of_int 0))
                 \<lparr>v3x = Fin True (pow2 128 - pow2 104), v3y = float_of_int 0, v3z = float_of_int 0\<rparr>"
  by code_simp

text \<open>
  C4, amended. \<open>vec3_lerp(a, b, t)\<close> and \<open>vec2_lerp(a, b, t)\<close> compute \<open>a + (b - a) * t\<close>
  componentwise in \<open>float\<close> arithmetic, with \<open>t\<close> unclamped. At \<open>t = 0\<close>, for \<open>a\<close> holding
  binary32 values (as every \<open>float\<close> does), the result compares equal to \<open>a\<close> exactly
  when every component of the \<open>float\<close> difference \<open>b - a\<close> is finite; a finite difference
  requires both operands to be finite. At \<open>t = 1\<close> the result compares equal to \<open>b\<close>
  whenever the components of \<open>a\<close> and \<open>b\<close> are finite binary32 values and every
  component of \<open>b - a\<close> is computed without rounding error.
\<close>

theorem lerp_formula_and_endpoints:
  "vec3_lerp a b t =
     \<lparr>v3x = fadd (v3x a) (fmul (fsub (v3x b) (v3x a)) t),
      v3y = fadd (v3y a) (fmul (fsub (v3y b) (v3y a)) t),
      v3z = fadd (v3z a) (fmul (fsub (v3z b) (v3z a)) t)\<rparr>
   \<and> vec2_lerp c d t =
     \<lparr>v2x = fadd (v2x c) (fmul (fsub (v2x d) (v2x c)) t),
      v2y = fadd (v2y c) (fmul (fsub (v2y d) (v2y c)) t)\<rparr>
   \<and> (is_float32 (v3x a) \<and> is_float32 (v3y a) \<and> is_float32 (v3z a) \<longrightarrow>
        (vec3_feq (vec3_lerp a b (float_of_int 0)) a \<longleftrightarrow>
           is_finite (fsub (v3x b) (v3x a)) \<and> is_finite (fsub (v3y b) (v3y a)) \<and>
           is_finite (fsub (v3z b) (v3z a))))
   \<and> (exact_sub (v3x b) (v3x a) \<and> exact_sub (v3y b) (v3y a) \<and> exact_sub (v3z b) (v3z a)
       \<longrightarrow> vec3_feq (vec3_lerp a b (float_of_int 1)) b)
   \<and> (is_float32 (v2x c) \<and> is_float32 (v2y c) \<longrightarrow>
        (vec2_feq (vec2_lerp c d (float_of_int 0)) c \<longleftrightarrow>
           is_finite (fsub (v2x d) (v2x c)) \<and> is_finite (fsub (v2y d) (v2y c))))
   \<and> (exact_sub (v2x d) (v2x c) \<and> exact_sub (v2y d) (v2y c)
       \<longrightarrow> vec2_feq (vec2_lerp c d (float_of_int 1)) d)
   \<and> (is_finite (fsub x y) \<longrightarrow> is_finite x \<and> is_finite y)"
  by (simp add: vec3_lerp_def vec2_lerp_def vec3_add_def vec3_sub_def vec3_mul_s_def
      vec2_add_def vec2_sub_def vec2_mul_s_def vec3_feq_def vec2_feq_def
      lerp_at_zero_iff lerp_at_one fsub_finite [of x y])

theorem lerp_formula_and_endpoints_witness:
  "exact_sub (float_of_int 4) (float_of_int 1) \<and> exact_sub (float_of_int 6) (float_of_int 2)
   \<and> exact_sub (float_of_int 8) (float_of_int 3)
   \<and> is_float32 (float_of_int 1) \<and> is_float32 (float_of_int 2) \<and> is_float32 (float_of_int 3)
   \<and> is_finite (fsub (float_of_int 4) (float_of_int 1))
   \<and> is_finite (fsub (float_of_int 6) (float_of_int 2))
   \<and> is_finite (fsub (float_of_int 8) (float_of_int 3))
   \<and> vec3_feq (vec3_lerp \<lparr>v3x = float_of_int 1, v3y = float_of_int 2, v3z = float_of_int 3\<rparr>
                         \<lparr>v3x = float_of_int 4, v3y = float_of_int 6, v3z = float_of_int 8\<rparr>
                         (float_of_int 0))
               \<lparr>v3x = float_of_int 1, v3y = float_of_int 2, v3z = float_of_int 3\<rparr>
   \<and> vec3_feq (vec3_lerp \<lparr>v3x = float_of_int 1, v3y = float_of_int 2, v3z = float_of_int 3\<rparr>
                         \<lparr>v3x = float_of_int 4, v3y = float_of_int 6, v3z = float_of_int 8\<rparr>
                         (float_of_int 1))
               \<lparr>v3x = float_of_int 4, v3y = float_of_int 6, v3z = float_of_int 8\<rparr>
   \<and> vec2_feq (vec2_lerp \<lparr>v2x = float_of_int 1, v2y = float_of_int 2\<rparr>
                         \<lparr>v2x = float_of_int 4, v2y = float_of_int 6\<rparr> (float_of_int 0))
               \<lparr>v2x = float_of_int 1, v2y = float_of_int 2\<rparr>
   \<and> vec2_feq (vec2_lerp \<lparr>v2x = float_of_int 1, v2y = float_of_int 2\<rparr>
                         \<lparr>v2x = float_of_int 4, v2y = float_of_int 6\<rparr> (float_of_int 1))
               \<lparr>v2x = float_of_int 4, v2y = float_of_int 6\<rparr>"
proof -
  have e: "exact_sub (float_of_int 4) (float_of_int 1)" "exact_sub (float_of_int 6) (float_of_int 2)"
    "exact_sub (float_of_int 8) (float_of_int 3)"
    by code_simp+
  have w: "is_float32 (float_of_int 1)" "is_float32 (float_of_int 2)" "is_float32 (float_of_int 3)"
    by code_simp+
  have n: "is_finite (fsub (float_of_int 4) (float_of_int 1))"
    "is_finite (fsub (float_of_int 6) (float_of_int 2))"
    "is_finite (fsub (float_of_int 8) (float_of_int 3))"
    by code_simp+
  note T = lerp_formula_and_endpoints
      [of "\<lparr>v3x = float_of_int 1, v3y = float_of_int 2, v3z = float_of_int 3\<rparr>"
          "\<lparr>v3x = float_of_int 4, v3y = float_of_int 6, v3z = float_of_int 8\<rparr>"
          "float_of_int 0"
          "\<lparr>v2x = float_of_int 1, v2y = float_of_int 2\<rparr>"
          "\<lparr>v2x = float_of_int 4, v2y = float_of_int 6\<rparr>"]
  note T2 = T [THEN conjunct2, THEN conjunct2]
  note T4 = T2 [THEN conjunct2, THEN conjunct2]
  have z3: "vec3_feq (vec3_lerp \<lparr>v3x = float_of_int 1, v3y = float_of_int 2, v3z = float_of_int 3\<rparr>
                         \<lparr>v3x = float_of_int 4, v3y = float_of_int 6, v3z = float_of_int 8\<rparr>
                         (float_of_int 0))
               \<lparr>v3x = float_of_int 1, v3y = float_of_int 2, v3z = float_of_int 3\<rparr>"
    by (rule T2 [THEN conjunct1, rule_format, THEN iffD2]) (simp_all add: n w)
  have o3: "vec3_feq (vec3_lerp \<lparr>v3x = float_of_int 1, v3y = float_of_int 2, v3z = float_of_int 3\<rparr>
                         \<lparr>v3x = float_of_int 4, v3y = float_of_int 6, v3z = float_of_int 8\<rparr>
                         (float_of_int 1))
               \<lparr>v3x = float_of_int 4, v3y = float_of_int 6, v3z = float_of_int 8\<rparr>"
    by (rule T2 [THEN conjunct2, THEN conjunct1, rule_format]) (simp add: e)
  have z2: "vec2_feq (vec2_lerp \<lparr>v2x = float_of_int 1, v2y = float_of_int 2\<rparr>
                         \<lparr>v2x = float_of_int 4, v2y = float_of_int 6\<rparr> (float_of_int 0))
               \<lparr>v2x = float_of_int 1, v2y = float_of_int 2\<rparr>"
    by (rule T4 [THEN conjunct1, rule_format, THEN iffD2]) (simp_all add: n w)
  have o2: "vec2_feq (vec2_lerp \<lparr>v2x = float_of_int 1, v2y = float_of_int 2\<rparr>
                         \<lparr>v2x = float_of_int 4, v2y = float_of_int 6\<rparr> (float_of_int 1))
               \<lparr>v2x = float_of_int 4, v2y = float_of_int 6\<rparr>"
    by (rule T4 [THEN conjunct2, THEN conjunct1, rule_format]) (simp add: e)
  from e w n z3 o3 z2 o2 show ?thesis by (intro conjI)
qed

section \<open>The cached transform\<close>

lemma cache_ok_initialize: "cache_ok K (transform_initialize t0)"
  by (simp add: cache_ok_def transform_initialize_def)

lemma cache_ok_update: "cache_ok K t \<Longrightarrow> cache_ok K (transform_update K t)"
  by (auto simp: cache_ok_def transform_update_def trs_of_def)

lemma update_clean:
  assumes "cache_ok K t"
  shows "transform_update K t = t\<lparr>t_dirty := False, t_transform := trs_of K t\<rparr>"
  using assms by (cases "t_dirty t") (simp_all add: cache_ok_def transform_update_def trs_of_def)

lemma cache_ok_run_call: "cache_ok K t \<Longrightarrow> cache_ok K (run_call K t c)"
  by (cases c)
     (simp_all add: cache_ok_update transform_matrix_def transform_matrix_out_def
        transform_world_to_local_def transform_local_to_world_def
        transform_world_to_local_dir_def transform_local_to_world_dir_def Let_def,
      simp_all add: cache_ok_def transform_set_def transform_set_position_def
        transform_set_scale_def transform_set_rotation_def transform_lookat_def)

lemma cache_ok_run_calls: "cache_ok K t \<Longrightarrow> cache_ok K (run_calls K t cs)"
  unfolding run_calls_def
  by (induction cs arbitrary: t) (simp_all add: cache_ok_run_call)

lemma cache_ok_reachable: "cache_ok K (run_calls K (transform_initialize t0) cs)"
  by (rule cache_ok_run_calls [OF cache_ok_initialize])

text \<open>
  C1. Let \<open>t\<close> be any transform reached from \<open>transform_initialize\<close> through calls of the
  interface. Whenever its dirty flag is false, its cached matrix is the TRS composition
  of its current position, rotation and scale. \<open>transform_initialize\<close> and every setter
  (\<open>transform_set\<close>, \<open>transform_set_position\<close>, \<open>transform_set_scale\<close>,
  \<open>transform_set_rotation\<close>, \<open>transform_lookat\<close>) leave the flag true. Every accessor that
  needs the matrix (\<open>transform_update\<close>, \<open>transform_matrix\<close>, \<open>transform_matrix_out\<close>,
  \<open>transform_world_to_local\<close>, \<open>transform_local_to_world\<close>) leaves the flag false and the
  cache equal to the composition of the current fields, and works with that matrix. Two
  consecutive reads of the matrix return the same value, and the read that follows a
  setter returns the composition of the new fields.
\<close>

theorem transform_cache_invariant:
  assumes t: "t = run_calls K (transform_initialize t0) cs"
  shows "(\<not> t_dirty t \<longrightarrow>
            t_transform t = matrix_trs K (t_position t) (t_rotation t) (t_scale t))
   \<and> t_dirty (transform_initialize t0)
   \<and> t_dirty (transform_set t p s r)
   \<and> t_dirty (transform_set_position t p)
   \<and> t_dirty (transform_set_scale t s)
   \<and> t_dirty (transform_set_rotation t r)
   \<and> t_dirty (transform_lookat K t p)
   \<and> transform_update K t = t\<lparr>t_dirty := False, t_transform := trs_of K t\<rparr>
   \<and> transform_matrix K t = (trs_of K t, t\<lparr>t_dirty := False, t_transform := trs_of K t\<rparr>)
   \<and> transform_matrix_out K t = (trs_of K t, t\<lparr>t_dirty := False, t_transform := trs_of K t\<rparr>)
   \<and> transform_world_to_local K t p =
       (matrix_mul_point K (matrix_inverse K (trs_of K t)) p,
        t\<lparr>t_dirty := False, t_transform := trs_of K t\<rparr>)
   \<and> transform_local_to_world K t p =
       (matrix_mul_point K (trs_of K t) p, t\<lparr>t_dirty := False, t_transform := trs_of K t\<rparr>)
   \<and> fst (transform_matrix K (snd (transform_matrix K t))) = fst (transform_matrix K t)
   \<and> fst (transform_matrix K (transform_set t p s r)) = matrix_trs K p r s
   \<and> fst (transform_matrix K (transform_set_position t p)) =
       matrix_trs K p (t_rotation t) (t_scale t)
   \<and> fst (transform_matrix K (transform_set_scale t s)) =
       matrix_trs K (t_position t) (t_rotation t) s
   \<and> fst (transform_matrix K (transform_set_rotation t r)) =
       matrix_trs K (t_position t) r (t_scale t)
   \<and> fst (transform_matrix K (transform_lookat K t p)) =
       matrix_trs K (t_position t) (quat_lookat K (t_position t) p) (t_scale t)"
proof -
  have ok: "cache_ok K t"
    unfolding t by (rule cache_ok_reachable)
  note u = update_clean [OF ok]
  have inv: "\<not> t_dirty t \<longrightarrow>
            t_transform t = matrix_trs K (t_position t) (t_rotation t) (t_scale t)"
    using ok by (auto simp: cache_ok_def trs_of_def)
  have set: "t_dirty (transform_initialize t0)" "t_dirty (transform_set t p s r)"
    "t_dirty (transform_set_position t p)" "t_dirty (transform_set_scale t s)"
    "t_dirty (transform_set_rotation t r)" "t_dirty (transform_lookat K t p)"
    by (simp_all add: transform_initialize_def transform_set_def transform_set_position_def
        transform_set_scale_def transform_set_rotation_def transform_lookat_def)
  have acc: "transform_matrix K t = (trs_of K t, t\<lparr>t_dirty := False, t_transform := trs_of K t\<rparr>)"
    "transform_matrix_out K t = (trs_of K t, t\<lparr>t_dirty := False, t_transform := trs_of K t\<rparr>)"
    "transform_world_to_local K t p =
       (matrix_mul_point K (matrix_inverse K (trs_of K t)) p,
        t\<lparr>t_dirty := False, t_transform := trs_of K t\<rparr>)"
    "transform_local_to_world K t p =
       (matrix_mul_point K (trs_of K t) p, t\<lparr>t_dirty := False, t_transform := trs_of K t\<rparr>)"
    by (simp_all add: transform_matrix_def transform_matrix_out_def
        transform_world_to_local_def transform_local_to_world_def Let_def u)
  have twice: "fst (transform_matrix K (snd (transform_matrix K t))) = fst (transform_matrix K t)"
    by (simp add: acc(1)) (simp add: transform_matrix_def transform_update_def)
  have next_read: "fst (transform_matrix K (transform_set t p s r)) = matrix_trs K p r s"
    "fst (transform_matrix K (transform_set_position t p)) =
       matrix_trs K p (t_rotation t) (t_scale t)"
    "fst (transform_matrix K (transform_set_scale t s)) =
       matrix_trs K (t_position t) (t_rotation t) s"
    "fst (transform_matrix K (transform_set_rotation t r)) =
       matrix_trs K (t_position t) r (t_scale t)"
    "fst (transform_matrix K (transform_lookat K t p)) =
       matrix_trs K (t_position t) (quat_lookat K (t_position t) p) (t_scale t)"
    by (simp_all add: transform_matrix_def transform_update_def transform_set_def
        transform_set_position_def transform_set_scale_def transform_set_rotation_def
        transform_lookat_def)
  from inv set u acc twice next_read show ?thesis
    by (intro conjI)
qed

theorem transform_cache_invariant_witness:
  "\<not> t_dirty (run_calls sample_kernel (transform_initialize sample_memory) sample_calls)
   \<and> t_transform (run_calls sample_kernel (transform_initialize sample_memory) sample_calls)
       = sample_trs (mk_vec3 1 0 0) quat_identity (mk_vec3 2 2 2)
   \<and> t_transform (run_calls sample_kernel (transform_initialize sample_memory) sample_calls)
       \<noteq> t_transform sample_memory"
proof -
  let ?t = "run_calls sample_kernel (transform_initialize sample_memory) sample_calls"
  have f: "\<not> t_dirty ?t" "t_position ?t = mk_vec3 1 0 0" "t_scale ?t = mk_vec3 2 2 2"
    "t_rotation ?t = quat_identity"
    by (simp_all add: run_calls_def sample_calls_def transform_initialize_def
        transform_set_position_def transform_set_scale_def transform_matrix_def
        transform_update_def Let_def)
  have m: "matrix_trs sample_kernel = sample_trs"
    by (simp add: sample_kernel_def)
  from transform_cache_invariant [OF refl, of sample_kernel sample_memory sample_calls] f(1)
  have "t_transform ?t = matrix_trs sample_kernel (t_position ?t) (t_rotation ?t) (t_scale ?t)"
    by blast
  then have e: "t_transform ?t = sample_trs (mk_vec3 1 0 0) quat_identity (mk_vec3 2 2 2)"
    by (simp only: f m)
  have "sample_trs (mk_vec3 1 0 0) quat_identity (mk_vec3 2 2 2) \<noteq> t_transform sample_memory"
    by (simp add: sample_trs_def sample_memory_def matrix_identity_def mk_vec3_def mk_vec4_def
        float_of_int_0 float_of_int_1)
  with f(1) e show ?thesis by simp
qed

section \<open>Ray and plane\<close>













section \<open>The default resources\<close>

text \<open>
  The body of \<open>defaults_init\<close> is run symbolically: the bound value of a \<open>let\<close> is
  simplified before the body is entered, so that each test is decided on the state the
  statements before it have left.
\<close>

lemmas do_defs = do_tex2d_create_def do_tex2d_set_colors_def do_mesh_create_def
  do_mesh_set_verts_def do_mesh_set_inds_def do_shader_create_def do_material_create_def
  do_material_set_texture_def

lemma Let_weak: "a = b \<Longrightarrow> Let a f = Let b f"
  by simp

lemma init_calls_grow:
  assumes "defaults_init E g = (ok, g')"
  shows "calls g' = calls g @ new_calls g g'"
  using assms unfolding defaults_init_def new_calls_def
  by (auto simp: Let_def do_defs cong: Let_weak split: if_splits)

lemma init_ok_iff:
  assumes "defaults_init E g = (ok, g')"
  shows "ok \<longleftrightarrow> (\<forall>c \<in> set (new_calls g g'). \<not> failed_create c)"
  using assms unfolding defaults_init_def new_calls_def
  by (auto simp: Let_def do_defs cong: Let_weak split: if_splits)

lemma init_fail_last:
  assumes "defaults_init E g = (ok, g')" and "\<not> ok"
  shows "new_calls g g' \<noteq> [] \<and> failed_create (last (new_calls g g')) \<and>
        (\<forall>c \<in> set (butlast (new_calls g g')). \<not> failed_create c)"
  using assms unfolding defaults_init_def new_calls_def
  by (auto simp: Let_def do_defs cong: Let_weak split: if_splits)

lemma init_fail_globals:
  assumes "defaults_init E g = (ok, g')" and "\<not> ok"
    and "k = length (filter is_checked_create (butlast (new_calls g g')))"
  shows "k < 10 \<and> checked_globals g' ! k = None \<and>
         (\<forall>h \<in> set (take k (checked_globals g')). h \<noteq> None) \<and>
         drop (Suc k) (checked_globals g') = drop (Suc k) (checked_globals g) \<and>
         (k < 5 \<longrightarrow> sk_default_quad g' = sk_default_quad g)"
  using assms unfolding defaults_init_def new_calls_def
  by (auto simp: Let_def do_defs checked_globals_def is_checked_create_def
      cong: Let_weak split: if_splits)

lemma init_success:
  assumes "defaults_init E g = (ok, g')" and "ok"
  shows "length (filter is_tex2d_create (new_calls g g')) = 5 \<and>
          length (filter is_shader_create (new_calls g g')) = 4 \<and>
          length (filter is_material_create (new_calls g g')) = 1 \<and>
          (\<forall>h \<in> set (checked_globals g'). h \<noteq> None) \<and>
          last (new_calls g g') =
            Material_set_texture (sk_default_material g') ''diffuse'' (sk_default_tex g')"
  using assms unfolding defaults_init_def new_calls_def
  by (auto simp: Let_def do_defs checked_globals_def
      cong: Let_weak split: if_splits)

lemma init_mesh_unchecked:
  assumes "defaults_init E g = (ok, g')"
    and "Mesh_create ''default/quad'' r \<in> set (new_calls g g')"
  shows "r = mesh_create E ''default/quad'' \<and> sk_default_quad g' = r \<and>
          Mesh_set_verts r quad_verts 4 \<in> set (new_calls g g') \<and>
          Mesh_set_inds r quad_inds 6 \<in> set (new_calls g g')"
  using assms unfolding defaults_init_def new_calls_def
  by (auto simp: Let_def do_defs cong: Let_weak split: if_splits)


lemma init_ok_explicit:
  assumes "defaults_init E g = (ok, g')"
  shows "ok \<longleftrightarrow>
     tex2d_create E ''default/tex2d'' \<noteq> None \<and>
     tex2d_create E ''default/tex2d_black'' \<noteq> None \<and>
     tex2d_create E ''default/tex2d_gray'' \<noteq> None \<and>
     tex2d_create E ''default/tex2d_flat'' \<noteq> None \<and>
     tex2d_create E ''default/tex2d_rough'' \<noteq> None \<and>
     shader_create E ''default/shader'' (sk_shader_builtin_default E) \<noteq> None \<and>
     shader_create E ''default/shader_pbr'' (sk_shader_builtin_pbr E) \<noteq> None \<and>
     shader_create E ''default/shader_unlit'' (sk_shader_builtin_unlit E) \<noteq> None \<and>
     shader_create E ''default/shader_font'' (sk_shader_builtin_font E) \<noteq> None \<and>
     material_create E ''default/material''
       (shader_create E ''default/shader_pbr'' (sk_shader_builtin_pbr E)) \<noteq> None"
  using assms unfolding defaults_init_def
  by (auto simp: Let_def do_defs cong: Let_weak split: if_splits)

lemma upload_colors:
  "replicate 4 c = [c, c, c, c]"
  "fill_colors c [p, q, r, s] = [c, c, c, c]"
  by (simp_all add: fill_colors_def numeral_eq_Suc upt_rec)

lemma init_mesh_called:
  assumes "defaults_init E g = (ok, g')"
    and "tex2d_create E ''default/tex2d'' \<noteq> None"
    and "tex2d_create E ''default/tex2d_black'' \<noteq> None"
    and "tex2d_create E ''default/tex2d_gray'' \<noteq> None"
    and "tex2d_create E ''default/tex2d_flat'' \<noteq> None"
    and "tex2d_create E ''default/tex2d_rough'' \<noteq> None"
  shows "Mesh_create ''default/quad'' (mesh_create E ''default/quad'') \<in> set (new_calls g g') \<and>
         Mesh_set_verts (mesh_create E ''default/quad'') quad_verts 4 \<in> set (new_calls g g') \<and>
         Mesh_set_inds (mesh_create E ''default/quad'') quad_inds 6 \<in> set (new_calls g g') \<and>
         sk_default_quad g' = mesh_create E ''default/quad''"
  using assms unfolding defaults_init_def new_calls_def
  by (auto simp: Let_def do_defs cong: Let_weak split: if_splits)

lemma init_success_trace:
  assumes "defaults_init E g = (ok, g')" and "ok"
  shows "new_calls g g' =
    [Tex2d_create ''default/tex2d'' (tex2d_create E ''default/tex2d''),
     Tex2d_set_colors (tex2d_create E ''default/tex2d'') 2 2
       [mk_color32 255 255 255 255, mk_color32 255 255 255 255,
        mk_color32 255 255 255 255, mk_color32 255 255 255 255],
     Tex2d_create ''default/tex2d_black'' (tex2d_create E ''default/tex2d_black''),
     Tex2d_set_colors (tex2d_create E ''default/tex2d_black'') 2 2
       [mk_color32 0 0 0 255, mk_color32 0 0 0 255, mk_color32 0 0 0 255, mk_color32 0 0 0 255],
     Tex2d_create ''default/tex2d_gray'' (tex2d_create E ''default/tex2d_gray''),
     Tex2d_set_colors (tex2d_create E ''default/tex2d_gray'') 2 2
       [mk_color32 128 128 128 255, mk_color32 128 128 128 255,
        mk_color32 128 128 128 255, mk_color32 128 128 128 255],
     Tex2d_create ''default/tex2d_flat'' (tex2d_create E ''default/tex2d_flat''),
     Tex2d_set_colors (tex2d_create E ''default/tex2d_flat'') 2 2
       [mk_color32 128 128 255 255, mk_color32 128 128 255 255,
        mk_color32 128 128 255 255, mk_color32 128 128 255 255],
     Tex2d_create ''default/tex2d_rough'' (tex2d_create E ''default/tex2d_rough''),
     Tex2d_set_colors (tex2d_create E ''default/tex2d_rough'') 2 2
       [mk_color32 0 0 255 255, mk_color32 0 0 255 255,
        mk_color32 0 0 255 255, mk_color32 0 0 255 255],
     Mesh_create ''default/quad'' (mesh_create E ''default/quad''),
     Mesh_set_verts (mesh_create E ''default/quad'') quad_verts 4,
     Mesh_set_inds (mesh_create E ''default/quad'') quad_inds 6,
     Shader_create ''default/shader'' (sk_shader_builtin_default E)
       (shader_create E ''default/shader'' (sk_shader_builtin_default E)),
     Shader_create ''default/shader_pbr'' (sk_shader_builtin_pbr E)
       (shader_create E ''default/shader_pbr'' (sk_shader_builtin_pbr E)),
     Shader_create ''default/shader_unlit'' (sk_shader_builtin_unlit E)
       (shader_create E ''default/shader_unlit'' (sk_shader_builtin_unlit E)),
     Shader_create ''default/shader_font'' (sk_shader_builtin_font E)
       (shader_create E ''default/shader_font'' (sk_shader_builtin_font E)),
     Material_create ''default/material''
       (shader_create E ''default/shader_pbr'' (sk_shader_builtin_pbr E))
       (material_create E ''default/material''
          (shader_create E ''default/shader_pbr'' (sk_shader_builtin_pbr E))),
     Material_set_texture
       (material_create E ''default/material''
          (shader_create E ''default/shader_pbr'' (sk_shader_builtin_pbr E)))
       ''diffuse'' (tex2d_create E ''default/tex2d'')]"
  using assms unfolding defaults_init_def new_calls_def
  by (auto simp: Let_def do_defs upload_colors cong: Let_weak split: if_splits)

lemma sample_run:
  "fst (defaults_init sample_engine sample_globals)"
  "Mesh_create ''default/quad'' None
     \<in> set (new_calls sample_globals (snd (defaults_init sample_engine sample_globals)))"
  by (simp_all add: defaults_init_def Let_def do_defs sample_engine_def sample_globals_def
      new_calls_def cong: Let_weak)

lemma failing_run:
  "\<not> fst (defaults_init failing_engine sample_globals)"
  "length (filter is_checked_create
     (butlast (new_calls sample_globals (snd (defaults_init failing_engine sample_globals))))) = 7"
  "last (new_calls sample_globals (snd (defaults_init failing_engine sample_globals)))
     = Shader_create ''default/shader_unlit'' ''u'' None"
  by (simp_all add: defaults_init_def Let_def do_defs sample_engine_def failing_engine_def
      sample_globals_def new_calls_def is_checked_create_def cong: Let_weak)

lemma sample_facts:
  "tex2d_create failing_engine ''default/tex2d'' \<noteq> None"
  "tex2d_create failing_engine ''default/tex2d_black'' \<noteq> None"
  "tex2d_create failing_engine ''default/tex2d_gray'' \<noteq> None"
  "tex2d_create failing_engine ''default/tex2d_flat'' \<noteq> None"
  "tex2d_create failing_engine ''default/tex2d_rough'' \<noteq> None"
  "mesh_create failing_engine ''default/quad'' = Some 4"
  "mesh_create sample_engine ''default/quad'' = None"
  "sk_default_quad sample_globals = Some 95"
  "drop 8 (checked_globals sample_globals) = [Some 99, Some 100]"
  by (simp_all add: failing_engine_def sample_engine_def sample_globals_def checked_globals_def)

text \<open>
  C10. \<open>defaults_init\<close> fails fast. It returns true exactly when the five
  \<open>tex2d_create\<close> calls, the four \<open>shader_create\<close> calls and the \<open>material_create\<close> call
  all return a non-null handle. When it returns false, the call that returned \<open>nullptr\<close>
  is the last thing it did: no engine call follows it, no checked creation before it
  failed, the global it was assigned to is null, and the globals of the later creations
  are as they were (the quad too, when a texture failed). When it returns true, five
  textures, four shaders and one material were created, none of them null, and the last
  call assigned the default texture to the material as \<open>diffuse\<close>; the calls it made are
  exactly the nineteen of the function body, in program order. Once the five textures
  exist, \<open>mesh_create\<close> is called, and its result is stored in \<open>sk_default_quad\<close> and passed
  on to \<open>mesh_set_verts\<close> and \<open>mesh_set_inds\<close> whatever it is, a null pointer included: it
  does not occur in the condition for success.
\<close>

theorem defaults_init_fail_fast:
  assumes "defaults_init E g = (ok, g')"
  shows "calls g' = calls g @ new_calls g g'
   \<and> (ok \<longleftrightarrow>
        tex2d_create E ''default/tex2d'' \<noteq> None \<and>
        tex2d_create E ''default/tex2d_black'' \<noteq> None \<and>
        tex2d_create E ''default/tex2d_gray'' \<noteq> None \<and>
        tex2d_create E ''default/tex2d_flat'' \<noteq> None \<and>
        tex2d_create E ''default/tex2d_rough'' \<noteq> None \<and>
        shader_create E ''default/shader'' (sk_shader_builtin_default E) \<noteq> None \<and>
        shader_create E ''default/shader_pbr'' (sk_shader_builtin_pbr E) \<noteq> None \<and>
        shader_create E ''default/shader_unlit'' (sk_shader_builtin_unlit E) \<noteq> None \<and>
        shader_create E ''default/shader_font'' (sk_shader_builtin_font E) \<noteq> None \<and>
        material_create E ''default/material''
          (shader_create E ''default/shader_pbr'' (sk_shader_builtin_pbr E)) \<noteq> None)
   \<and> (ok \<longleftrightarrow> (\<forall>c \<in> set (new_calls g g'). \<not> failed_create c))
   \<and> (\<not> ok \<longrightarrow>
        new_calls g g' \<noteq> [] \<and> failed_create (last (new_calls g g')) \<and>
        (\<forall>c \<in> set (butlast (new_calls g g')). \<not> failed_create c))
   \<and> (\<not> ok \<longrightarrow>
        length (filter is_checked_create (butlast (new_calls g g'))) < 10 \<and>
        checked_globals g' ! length (filter is_checked_create (butlast (new_calls g g'))) = None \<and>
        (\<forall>h \<in> set (take (length (filter is_checked_create (butlast (new_calls g g'))))
                       (checked_globals g')). h \<noteq> None) \<and>
        drop (Suc (length (filter is_checked_create (butlast (new_calls g g')))))
             (checked_globals g') =
        drop (Suc (length (filter is_checked_create (butlast (new_calls g g')))))
             (checked_globals g) \<and>
        (length (filter is_checked_create (butlast (new_calls g g'))) < 5
           \<longrightarrow> sk_default_quad g' = sk_default_quad g))
   \<and> (ok \<longrightarrow>
        length (filter is_tex2d_create (new_calls g g')) = 5 \<and>
        length (filter is_shader_create (new_calls g g')) = 4 \<and>
        length (filter is_material_create (new_calls g g')) = 1 \<and>
        (\<forall>h \<in> set (checked_globals g'). h \<noteq> None) \<and>
        last (new_calls g g') =
          Material_set_texture (sk_default_material g') ''diffuse'' (sk_default_tex g'))
   \<and> (\<forall>r. Mesh_create ''default/quad'' r \<in> set (new_calls g g') \<longrightarrow>
        r = mesh_create E ''default/quad'' \<and> sk_default_quad g' = r \<and>
        Mesh_set_verts r quad_verts 4 \<in> set (new_calls g g') \<and>
        Mesh_set_inds r quad_inds 6 \<in> set (new_calls g g'))
   \<and> (tex2d_create E ''default/tex2d'' \<noteq> None \<and>
      tex2d_create E ''default/tex2d_black'' \<noteq> None \<and>
      tex2d_create E ''default/tex2d_gray'' \<noteq> None \<and>
      tex2d_create E ''default/tex2d_flat'' \<noteq> None \<and>
      tex2d_create E ''default/tex2d_rough'' \<noteq> None \<longrightarrow>
        Mesh_create ''default/quad'' (mesh_create E ''default/quad'') \<in> set (new_calls g g') \<and>
        Mesh_set_verts (mesh_create E ''default/quad'') quad_verts 4 \<in> set (new_calls g g') \<and>
        Mesh_set_inds (mesh_create E ''default/quad'') quad_inds 6 \<in> set (new_calls g g') \<and>
        sk_default_quad g' = mesh_create E ''default/quad'')
   \<and> (ok \<longrightarrow> new_calls g g' =
         [Tex2d_create ''default/tex2d'' (tex2d_create E ''default/tex2d''),
          Tex2d_set_colors (tex2d_create E ''default/tex2d'') 2 2
            [mk_color32 255 255 255 255, mk_color32 255 255 255 255,
             mk_color32 255 255 255 255, mk_color32 255 255 255 255],
          Tex2d_create ''default/tex2d_black'' (tex2d_create E ''default/tex2d_black''),
          Tex2d_set_colors (tex2d_create E ''default/tex2d_black'') 2 2
            [mk_color32 0 0 0 255, mk_color32 0 0 0 255, mk_color32 0 0 0 255, mk_color32 0 0 0 255],
          Tex2d_create ''default/tex2d_gray'' (tex2d_create E ''default/tex2d_gray''),
          Tex2d_set_colors (tex2d_create E ''default/tex2d_gray'') 2 2
            [mk_color32 128 128 128 255, mk_color32 128 128 128 255,
             mk_color32 128 128 128 255, mk_color32 128 128 128 255],
          Tex2d_create ''default/tex2d_flat'' (tex2d_create E ''default/tex2d_flat''),
          Tex2d_set_colors (tex2d_create E ''default/tex2d_flat'') 2 2
            [mk_color32 128 128 255 255, mk_color32 128 128 255 255,
             mk_color32 128 128 255 255, mk_color32 128 128 255 255],
          Tex2d_create ''default/tex2d_rough'' (tex2d_create E ''default/tex2d_rough''),
          Tex2d_set_colors (tex2d_create E ''default/tex2d_rough'') 2 2
            [mk_color32 0 0 255 255, mk_color32 0 0 255 255,
             mk_color32 0 0 255 255, mk_color32 0 0 255 255],
          Mesh_create ''default/quad'' (mesh_create E ''default/quad''),
          Mesh_set_verts (mesh_create E ''default/quad'') quad_verts 4,
          Mesh_set_inds (mesh_create E ''default/quad'') quad_inds 6,
          Shader_create ''default/shader'' (sk_shader_builtin_default E)
            (shader_create E ''default/shader'' (sk_shader_builtin_default E)),
          Shader_create ''default/shader_pbr'' (sk_shader_builtin_pbr E)
            (shader_create E ''default/shader_pbr'' (sk_shader_builtin_pbr E)),
          Shader_create ''default/shader_unlit'' (sk_shader_builtin_unlit E)
            (shader_create E ''default/shader_unlit'' (sk_shader_builtin_unlit E)),
          Shader_create ''default/shader_font'' (sk_shader_builtin_font E)
            (shader_create E ''default/shader_font'' (sk_shader_builtin_font E)),
          Material_create ''default/material''
            (shader_create E ''default/shader_pbr'' (sk_shader_builtin_pbr E))
            (material_create E ''default/material''
               (shader_create E ''default/shader_pbr'' (sk_shader_builtin_pbr E))),
          Material_set_texture
            (material_create E ''default/material''
               (shader_create E ''default/shader_pbr'' (sk_shader_builtin_pbr E)))
            ''diffuse'' (tex2d_create E ''default/tex2d'')])"
proof (intro conjI impI allI)
  show "calls g' = calls g @ new_calls g g'"
    by (rule init_calls_grow [OF assms])
next
  show "ok \<longleftrightarrow>
        tex2d_create E ''default/tex2d'' \<noteq> None \<and>
        tex2d_create E ''default/tex2d_black'' \<noteq> None \<and>
        tex2d_create E ''default/tex2d_gray'' \<noteq> None \<and>
        tex2d_create E ''default/tex2d_flat'' \<noteq> None \<and>
        tex2d_create E ''default/tex2d_rough'' \<noteq> None \<and>
        shader_create E ''default/shader'' (sk_shader_builtin_default E) \<noteq> None \<and>
        shader_create E ''default/shader_pbr'' (sk_shader_builtin_pbr E) \<noteq> None \<and>
        shader_create E ''default/shader_unlit'' (sk_shader_builtin_unlit E) \<noteq> None \<and>
        shader_create E ''default/shader_font'' (sk_shader_builtin_font E) \<noteq> None \<and>
        material_create E ''default/material''
          (shader_create E ''default/shader_pbr'' (sk_shader_builtin_pbr E)) \<noteq> None"
    by (rule init_ok_explicit [OF assms])
next
  show "ok \<longleftrightarrow> (\<forall>c \<in> set (new_calls g g'). \<not> failed_create c)"
    by (rule init_ok_iff [OF assms])
qed (use init_fail_last [OF assms] init_fail_globals [OF assms _ refl] init_success [OF assms]
      init_mesh_unchecked [OF assms] init_mesh_called [OF assms] init_success_trace [OF assms]
    in blast)+

theorem defaults_init_fail_fast_witness:
  "fst (defaults_init sample_engine sample_globals)
   \<and> mesh_create sample_engine ''default/quad'' = None
   \<and> sk_default_quad sample_globals = Some 95
   \<and> sk_default_quad (snd (defaults_init sample_engine sample_globals)) = None
   \<and> Mesh_create ''default/quad'' None
        \<in> set (new_calls sample_globals (snd (defaults_init sample_engine sample_globals)))
   \<and> Mesh_set_verts None quad_verts 4
        \<in> set (new_calls sample_globals (snd (defaults_init sample_engine sample_globals)))
   \<and> Mesh_set_inds None quad_inds 6
        \<in> set (new_calls sample_globals (snd (defaults_init sample_engine sample_globals)))
   \<and> length (new_calls sample_globals (snd (defaults_init sample_engine sample_globals))) = 19
   \<and> last (new_calls sample_globals (snd (defaults_init sample_engine sample_globals)))
       = Material_set_texture
           (sk_default_material (snd (defaults_init sample_engine sample_globals))) ''diffuse''
           (sk_default_tex (snd (defaults_init sample_engine sample_globals)))
   \<and> \<not> fst (defaults_init failing_engine sample_globals)
   \<and> mesh_create failing_engine ''default/quad'' = Some 4
   \<and> sk_default_quad (snd (defaults_init failing_engine sample_globals)) = Some 4
   \<and> Mesh_create ''default/quad'' (Some 4)
        \<in> set (new_calls sample_globals (snd (defaults_init failing_engine sample_globals)))
   \<and> Mesh_set_verts (Some 4) quad_verts 4
        \<in> set (new_calls sample_globals (snd (defaults_init failing_engine sample_globals)))
   \<and> last (new_calls sample_globals (snd (defaults_init failing_engine sample_globals)))
       = Shader_create ''default/shader_unlit'' ''u'' None
   \<and> failed_create
        (last (new_calls sample_globals (snd (defaults_init failing_engine sample_globals))))
   \<and> checked_globals (snd (defaults_init failing_engine sample_globals)) ! 7 = None
   \<and> drop 8 (checked_globals (snd (defaults_init failing_engine sample_globals)))
       = [Some 99, Some 100]"
proof -
  note S = defaults_init_fail_fast
             [OF prod.collapse [symmetric], of sample_engine sample_globals]
  note F = defaults_init_fail_fast
             [OF prod.collapse [symmetric], of failing_engine sample_globals]
  note m = sample_facts(7)
  from S sample_run m
  have s: "sk_default_quad (snd (defaults_init sample_engine sample_globals)) = None"
    "Mesh_set_verts None quad_verts 4
        \<in> set (new_calls sample_globals (snd (defaults_init sample_engine sample_globals)))"
    "Mesh_set_inds None quad_inds 6
        \<in> set (new_calls sample_globals (snd (defaults_init sample_engine sample_globals)))"
    "last (new_calls sample_globals (snd (defaults_init sample_engine sample_globals)))
       = Material_set_texture
           (sk_default_material (snd (defaults_init sample_engine sample_globals))) ''diffuse''
           (sk_default_tex (snd (defaults_init sample_engine sample_globals)))"
    by blast+
  from S sample_run(1)
  have "new_calls sample_globals (snd (defaults_init sample_engine sample_globals)) =
    [Tex2d_create ''default/tex2d'' (tex2d_create sample_engine ''default/tex2d''),
     Tex2d_set_colors (tex2d_create sample_engine ''default/tex2d'') 2 2
       [mk_color32 255 255 255 255, mk_color32 255 255 255 255,
        mk_color32 255 255 255 255, mk_color32 255 255 255 255],
     Tex2d_create ''default/tex2d_black'' (tex2d_create sample_engine ''default/tex2d_black''),
     Tex2d_set_colors (tex2d_create sample_engine ''default/tex2d_black'') 2 2
       [mk_color32 0 0 0 255, mk_color32 0 0 0 255, mk_color32 0 0 0 255, mk_color32 0 0 0 255],
     Tex2d_create ''default/tex2d_gray'' (tex2d_create sample_engine ''default/tex2d_gray''),
     Tex2d_set_colors (tex2d_create sample_engine ''default/tex2d_gray'') 2 2
       [mk_color32 128 128 128 255, mk_color32 128 128 128 255,
        mk_color32 128 128 128 255, mk_color32 128 128 128 255],
     Tex2d_create ''default/tex2d_flat'' (tex2d_create sample_engine ''default/tex2d_flat''),
     Tex2d_set_colors (tex2d_create sample_engine ''default/tex2d_flat'') 2 2
       [mk_color32 128 128 255 255, mk_color32 128 128 255 255,
        mk_color32 128 128 255 255, mk_color32 128 128 255 255],
     Tex2d_create ''default/tex2d_rough'' (tex2d_create sample_engine ''default/tex2d_rough''),
     Tex2d_set_colors (tex2d_create sample_engine ''default/tex2d_rough'') 2 2
       [mk_color32 0 0 255 255, mk_color32 0 0 255 255,
        mk_color32 0 0 255 255, mk_color32 0 0 255 255],
     Mesh_create ''default/quad'' (mesh_create sample_engine ''default/quad''),
     Mesh_set_verts (mesh_create sample_engine ''default/quad'') quad_verts 4,
     Mesh_set_inds (mesh_create sample_engine ''default/quad'') quad_inds 6,
     Shader_create ''default/shader'' (sk_shader_builtin_default sample_engine)
       (shader_create sample_engine ''default/shader'' (sk_shader_builtin_default sample_engine)),
     Shader_create ''default/shader_pbr'' (sk_shader_builtin_pbr sample_engine)
       (shader_create sample_engine ''default/shader_pbr'' (sk_shader_builtin_pbr sample_engine)),
     Shader_create ''default/shader_unlit'' (sk_shader_builtin_unlit sample_engine)
       (shader_create sample_engine ''default/shader_unlit''
          (sk_shader_builtin_unlit sample_engine)),
     Shader_create ''default/shader_font'' (sk_shader_builtin_font sample_engine)
       (shader_create sample_engine ''default/shader_font'' (sk_shader_builtin_font sample_engine)),
     Material_create ''default/material''
       (shader_create sample_engine ''default/shader_pbr'' (sk_shader_builtin_pbr sample_engine))
       (material_create sample_engine ''default/material''
          (shader_create sample_engine ''default/shader_pbr''
             (sk_shader_builtin_pbr sample_engine))),
     Material_set_texture
       (material_create sample_engine ''default/material''
          (shader_create sample_engine ''default/shader_pbr''
             (sk_shader_builtin_pbr sample_engine)))
       ''diffuse'' (tex2d_create sample_engine ''default/tex2d'')]"
    by blast
  then have len: "length (new_calls sample_globals
      (snd (defaults_init sample_engine sample_globals))) = 19"
    by simp
  from F sample_facts(1-5)
  have q: "Mesh_create ''default/quad'' (mesh_create failing_engine ''default/quad'')
        \<in> set (new_calls sample_globals (snd (defaults_init failing_engine sample_globals)))"
    "Mesh_set_verts (mesh_create failing_engine ''default/quad'') quad_verts 4
        \<in> set (new_calls sample_globals (snd (defaults_init failing_engine sample_globals)))"
    "sk_default_quad (snd (defaults_init failing_engine sample_globals))
       = mesh_create failing_engine ''default/quad''"
    by blast+
  from F failing_run(1)
  have f: "failed_create
        (last (new_calls sample_globals (snd (defaults_init failing_engine sample_globals))))"
    "checked_globals (snd (defaults_init failing_engine sample_globals)) !
       length (filter is_checked_create
         (butlast (new_calls sample_globals (snd (defaults_init failing_engine sample_globals)))))
       = None"
    "drop (Suc (length (filter is_checked_create
         (butlast (new_calls sample_globals (snd (defaults_init failing_engine sample_globals)))))))
       (checked_globals (snd (defaults_init failing_engine sample_globals)))
     = drop (Suc (length (filter is_checked_create
         (butlast (new_calls sample_globals (snd (defaults_init failing_engine sample_globals)))))))
       (checked_globals sample_globals)"
    by blast+
  from f(2) have f2: "checked_globals (snd (defaults_init failing_engine sample_globals)) ! 7 = None"
    by (simp only: failing_run(2))
  from f(3) have "drop 8 (checked_globals (snd (defaults_init failing_engine sample_globals)))
       = drop 8 (checked_globals sample_globals)"
    by (simp only: failing_run(2)) simp
  then have f3: "drop 8 (checked_globals (snd (defaults_init failing_engine sample_globals)))
       = [Some 99, Some 100]"
    by (simp only: sample_facts(9))
  note q' = q [unfolded sample_facts(6)]
  from sample_run(1) m sample_facts(8) s(1) sample_run(2) s(2) s(3) len s(4)
    failing_run(1) sample_facts(6) q'(3) q'(1) q'(2) failing_run(3) f(1) f2 f3
  show ?thesis by (intro conjI)
qed

end
